theory Spec2Isabelle
  imports Complex_Main
begin

section \<open>Calendar dates and times of day\<close>

text \<open>
  A Python \<open>datetime.date\<close> is represented by its proleptic Gregorian ordinal
  (\<open>date.toordinal()\<close>): day 1 is 0001-01-01 and \<open>date.max\<close> (9999-12-31) is day
  3652059.  Comparison of dates is comparison of ordinals, and \<open>d + timedelta(days=n)\<close>
  adds \<open>n\<close> to the ordinal and raises \<open>OverflowError\<close> outside \<open>date.min .. date.max\<close>.
  A naive \<open>datetime.time\<close> is the number of microseconds since midnight; a
  \<open>datetime\<close> is a pair of a date and a time of day, compared lexicographically.
\<close>

type_synonym date = int
type_synonym time_of_day = nat
type_synonym datetime = "date \<times> time_of_day"

datatype error =
    ValueError string
  | OverflowError string
  | MultipleResultsFound
  | IntegrityError string
  | HTTPException nat string

definition MINORD :: int where
  "MINORD = 1"

definition MAXORD :: int where
  "MAXORD = 3652059"

definition weekday :: "date \<Rightarrow> int" where
  \<comment> \<open>\<open>date.weekday()\<close>: Monday is 0 and Sunday is 6\<close>
  "weekday d = (d + 6) mod 7"

definition date_add_days :: "date \<Rightarrow> int \<Rightarrow> error + date" where
  \<comment> \<open>\<open>d + timedelta(days=n)\<close>\<close>
  "date_add_days d n =
     (if MINORD \<le> d + n \<and> d + n \<le> MAXORD then Inr (d + n)
      else Inl (OverflowError ''date value out of range''))"

definition mk_time :: "nat \<Rightarrow> nat \<Rightarrow> time_of_day" where
  \<comment> \<open>\<open>time(hour, minute)\<close>\<close>
  "mk_time h m = (h * 3600 + m * 60) * 1000000"

section \<open>Attendance windows\<close>

datatype StudentCategory = HOSTELLER | DAY_SCHOLAR

fun category_value :: "StudentCategory \<Rightarrow> string" where
  "category_value HOSTELLER = ''HOSTELLER''"
| "category_value DAY_SCHOLAR = ''DAY_SCHOLAR''"

record AttendanceWindow =
  win_id :: nat
  win_name :: string
  win_start_time :: time_of_day
  win_end_time :: time_of_day
  win_days_of_week :: "int list"
  win_student_category :: "string option"
  win_is_active :: bool

text \<open>
  \<open>AttendanceService._is_within_time_window\<close>: the loop over the windows, with its
  \<open>continue\<close> on a day that is not listed and its early \<open>return True\<close>.
  \<open>win_days_of_week\<close> is the decoded JSON array of the column.
\<close>

fun is_within_time_window :: "AttendanceWindow list \<Rightarrow> time_of_day \<Rightarrow> int \<Rightarrow> bool" where
  "is_within_time_window [] current_time current_day = False"
| "is_within_time_window (w # ws) current_time current_day =
     (if current_day \<notin> set (win_days_of_week w)
      then is_within_time_window ws current_time current_day
      else if win_start_time w \<le> current_time \<and> current_time \<le> win_end_time w then True
      else is_within_time_window ws current_time current_day)"

text \<open>
  \<open>AttendanceWindowRepository.get_active_windows\<close>: the category filter is added to
  the query only \<open>if category\<close>, so a student without a category gets every active
  window.
\<close>

definition get_active_windows ::
  "AttendanceWindow list \<Rightarrow> StudentCategory option \<Rightarrow> AttendanceWindow list" where
  "get_active_windows table category =
     (let query = filter win_is_active table in
      case category of
        None \<Rightarrow> query
      | Some c \<Rightarrow>
          filter (\<lambda>w. win_student_category w = Some (category_value c)
                      \<or> win_student_category w = None) query)"

definition within_time_window ::
  "AttendanceWindow list \<Rightarrow> StudentCategory option \<Rightarrow> time_of_day \<Rightarrow> int \<Rightarrow> bool" where
  \<comment> \<open>check 2 of \<open>check_attendance_prerequisites\<close>: the two calls composed\<close>
  "within_time_window table category current_time current_day =
     is_within_time_window (get_active_windows table category) current_time current_day"

text \<open>
  The rule of the specification, word for word: a window applies if the weekday is in
  its days, its category is unset or equals the student's, and the time lies between
  its bounds; the check is true if any active window applies.
\<close>

definition isOpen_spec ::
  "AttendanceWindow list \<Rightarrow> time_of_day \<Rightarrow> int \<Rightarrow> StudentCategory option \<Rightarrow> bool" where
  "isOpen_spec table now_time now_weekday category =
     (\<exists>w \<in> set table.
        win_is_active w \<and> now_weekday \<in> set (win_days_of_week w)
        \<and> (win_student_category w = None
             \<or> win_student_category w = map_option category_value category)
        \<and> win_start_time w \<le> now_time \<and> now_time \<le> win_end_time w)"

definition example_window :: "string option \<Rightarrow> AttendanceWindow" where
  "example_window cat =
     \<lparr> win_id = 1, win_name = ''Morning'', win_start_time = mk_time 9 0,
       win_end_time = mk_time 9 30, win_days_of_week = [0, 1, 2, 3, 4, 5],
       win_student_category = cat, win_is_active = True \<rparr>"

section \<open>Database rows and queries\<close>

text \<open>
  A table is the list of its rows.  \<open>Result.scalar_one_or_none()\<close> returns the only
  row of a result, \<open>None\<close> for an empty result, and raises \<open>MultipleResultsFound\<close>
  when the query matched more than one row.
\<close>

fun scalar_one_or_none :: "'a list \<Rightarrow> error + 'a option" where
  "scalar_one_or_none [] = Inr None"
| "scalar_one_or_none [x] = Inr (Some x)"
| "scalar_one_or_none (x # y # zs) = Inl MultipleResultsFound"

definition fresh_id :: "nat list \<Rightarrow> nat" where
  \<comment> \<open>the primary key the database gives a new row: one that no row of the table has\<close>
  "fresh_id ids = Suc (fold max ids 0)"

datatype ProfilePhotoStatus = PHOTO_PENDING | APPROVED | REJECTED

datatype AttendanceStatus = PRESENT | ABSENT | PENDING

datatype FailureReason =
    OUTSIDE_CAMPUS
  | GPS_DISABLED
  | LOW_GPS_ACCURACY
  | FACE_MISMATCH
  | MULTIPLE_FACES
  | NO_FACE_DETECTED
  | PROFILE_NOT_APPROVED
  | OUTSIDE_TIME_WINDOW
  | ALREADY_MARKED
  | IMAGE_QUALITY_POOR
  | FACE_OBSTRUCTED

record User =
  user_id :: nat
  user_student_category :: "StudentCategory option"

record Holiday =
  hol_id :: nat
  hol_date :: date
  hol_name :: string
  hol_description :: "string option"
  hol_holiday_type :: string
  hol_is_recurring :: bool
  hol_is_active :: bool
  hol_created_by :: "nat option"

record ProfilePhoto =
  ph_id :: nat
  ph_student_id :: nat
  ph_file_path :: string
  ph_filename :: string
  ph_face_encoding :: "string option"
  ph_status :: ProfilePhotoStatus
  ph_rejection_reason :: "string option"
  ph_reviewed_by :: "nat option"
  ph_reviewed_at :: "datetime option"

record CampusGeofence =
  gf_id :: nat
  gf_name :: string
  gf_description :: "string option"
  gf_latitude :: real
  gf_longitude :: real
  gf_radius_meters :: real
  gf_accuracy_threshold :: real
  gf_is_active :: bool
  gf_is_primary :: bool
  gf_created_by :: "nat option"

record AttendanceRecord =
  rec_id :: nat
  rec_student_id :: nat
  rec_attendance_date :: date
  rec_status :: AttendanceStatus
  rec_location_latitude :: "real option"
  rec_location_longitude :: "real option"
  rec_location_accuracy :: "real option"
  rec_face_match_confidence :: "real option"
  rec_marked_at :: "datetime option"

text \<open>
  \<open>failure_details\<close> is an f-string over the values below; the row keeps the values
  (the text of a formatted float is not modelled).
\<close>

datatype failure_details =
    GeofenceNotConfigured
  | AccuracyExceedsThreshold real real
  | DistanceFromCenter real real
  | NoFaceInCapture
  | FacesDetected nat
  | FaceMatchScore real

record AttendanceAttempt =
  att_id :: nat
  att_student_id :: nat
  att_attempted_at :: datetime
  att_success :: bool
  att_failure_reason :: "FailureReason option"
  att_failure_details :: "failure_details option"
  att_location_latitude :: "real option"
  att_location_longitude :: "real option"
  att_location_accuracy :: "real option"
  att_captured_image_path :: "string option"
  att_face_match_score :: "real option"
  att_geofence_id :: "nat option"

record db =
  db_photos :: "ProfilePhoto list"
  db_geofences :: "CampusGeofence list"
  db_windows :: "AttendanceWindow list"
  db_records :: "AttendanceRecord list"
  db_attempts :: "AttendanceAttempt list"
  db_holidays :: "Holiday list"

section \<open>Holiday calendar\<close>

text \<open>
  \<open>HolidayRepository\<close>.  The \<open>date\<close> column is unique, so an insert of a date that
  some row already has (active or not) fails with \<open>IntegrityError\<close>.
\<close>

definition holiday_get_by_date :: "db \<Rightarrow> date \<Rightarrow> error + Holiday option" where
  "holiday_get_by_date s target_date =
     scalar_one_or_none
       (filter (\<lambda>h. hol_date h = target_date \<and> hol_is_active h) (db_holidays s))"

definition get_holidays_in_range :: "db \<Rightarrow> date \<Rightarrow> date \<Rightarrow> Holiday list" where
  "get_holidays_in_range s start_date end_date =
     sort_key hol_date
       (filter (\<lambda>h. start_date \<le> hol_date h \<and> hol_date h \<le> end_date \<and> hol_is_active h)
          (db_holidays s))"

definition get_holiday_dates_in_range :: "db \<Rightarrow> date \<Rightarrow> date \<Rightarrow> date set" where
  "get_holiday_dates_in_range s start_date end_date =
     set (map hol_date (get_holidays_in_range s start_date end_date))"

definition holiday_get_all_active :: "db \<Rightarrow> nat \<Rightarrow> nat \<Rightarrow> Holiday list" where
  \<comment> \<open>ordered by date, latest first; \<open>skip\<close> and \<open>limit\<close> default to 0 and 100\<close>
  "holiday_get_all_active s skip limit =
     take limit (drop skip (rev (sort_key hol_date (filter hol_is_active (db_holidays s)))))"

definition holiday_create ::
  "db \<Rightarrow> date \<Rightarrow> string \<Rightarrow> string option \<Rightarrow> string \<Rightarrow> bool \<Rightarrow> nat \<Rightarrow> error + Holiday \<times> db" where
  "holiday_create s d name description holiday_type is_recurring created_by =
     (let holiday =
        \<lparr> hol_id = fresh_id (map hol_id (db_holidays s)), hol_date = d, hol_name = name,
          hol_description = description, hol_holiday_type = holiday_type,
          hol_is_recurring = is_recurring, hol_is_active = True,
          hol_created_by = Some created_by \<rparr>
      in if d \<in> set (map hol_date (db_holidays s))
         then Inl (IntegrityError ''holidays.date'')
         else Inr (holiday, s\<lparr>db_holidays := db_holidays s @ [holiday]\<rparr>))"

definition holiday_delete :: "db \<Rightarrow> nat \<Rightarrow> error + bool \<times> db" where
  \<comment> \<open>\<open>HolidayRepository.delete\<close> (and \<open>AttendanceService.delete_holiday\<close>, which returns its result)\<close>
  "holiday_delete s holiday_id =
     (case scalar_one_or_none (filter (\<lambda>h. hol_id h = holiday_id) (db_holidays s)) of
        Inl e \<Rightarrow> Inl e
      | Inr None \<Rightarrow> Inr (False, s)
      | Inr (Some holiday) \<Rightarrow>
          Inr (True,
               s\<lparr>db_holidays :=
                    map (\<lambda>h. if hol_id h = holiday_id then h\<lparr>hol_is_active := False\<rparr> else h)
                      (db_holidays s)\<rparr>))"

definition is_working_day :: "date set \<Rightarrow> date \<Rightarrow> bool" where
  \<comment> \<open>the test \<open>current.weekday() != 6 and current not in holiday_dates\<close> of the statistics\<close>
  "is_working_day holiday_dates current = (weekday current \<noteq> 6 \<and> current \<notin> holiday_dates)"

definition empty_db :: db where
  "empty_db = \<lparr> db_photos = [], db_geofences = [], db_windows = [], db_records = [],
                db_attempts = [], db_holidays = [] \<rparr>"

text \<open>A calendar with one holiday, on Wednesday 2025-01-01 (day 739252).\<close>

definition holiday_new_year :: Holiday where
  "holiday_new_year = \<lparr> hol_id = 1, hol_date = 739252, hol_name = ''New Year'', hol_description = None,
          hol_holiday_type = ''GENERAL'', hol_is_recurring = True, hol_is_active = True,
          hol_created_by = Some 1 \<rparr>"

definition db_one_holiday :: db where
  "db_one_holiday = empty_db\<lparr>db_holidays := [holiday_new_year]\<rparr>"

section \<open>Attendance statistics\<close>

text \<open>
  \<open>DetailedAttendanceRepository.get_student_attendance_stats\<close>.  An entry of the
  synthesized history is a row of \<open>attendance_records\<close> or the dictionary of a virtual
  absence (\<open>id\<close> and \<open>marked_at\<close> are \<open>None\<close>, \<open>status\<close> is \<open>ABSENT\<close>).
\<close>

datatype history_entry = RealRecord AttendanceRecord | VirtualAbsent nat date

fun entry_date :: "history_entry \<Rightarrow> date" where
  "entry_date (RealRecord r) = rec_attendance_date r"
| "entry_date (VirtualAbsent student_id d) = d"

fun is_virtual :: "history_entry \<Rightarrow> bool" where
  "is_virtual (RealRecord r) = False"
| "is_virtual (VirtualAbsent student_id d) = True"

record attendance_stats =
  st_start_date :: date
  st_end_date :: date
  st_total_working_days :: int
  st_holidays_count :: nat
  st_present_days :: int
  st_absent_days :: int
  st_attendance_percentage :: real
  st_records :: "history_entry list"
  st_holidays :: "Holiday list"

text \<open>
  The percentage is computed in IEEE 754 doubles.  A double is modelled by the real
  number it denotes: \<open>round_double\<close> rounds a real to the nearest number with a 53 bit
  significand, a tie going to the even significand (the bounds of the exponent are not
  modelled: counts of days and rows stay far inside them).  \<open>present_count /
  total_working_days\<close> is Python's correctly rounded true division of two integers,
  \<open>* 100\<close> is the rounded product, and \<open>round(x, 2)\<close> rounds the exact value of the
  double \<open>x\<close> to two decimals, a tie going to the even digit, and returns the double
  nearest to that decimal number.
\<close>

definition round_half_even :: "real \<Rightarrow> int" where
  "round_half_even m =
     (let f = \<lfloor>m\<rfloor>; r = m - of_int f
      in if r < 1 / 2 then f else if 1 / 2 < r then f + 1 else if even f then f else f + 1)"

definition pow2 :: "int \<Rightarrow> real" where
  "pow2 e = (if 0 \<le> e then 2 ^ nat e else 1 / 2 ^ nat (- e))"

definition round_double :: "real \<Rightarrow> real" where
  "round_double x =
     (if x = 0 then 0
      else (let e = \<lfloor>log 2 \<bar>x\<bar>\<rfloor> - 52
            in of_int (round_half_even (x / pow2 e)) * pow2 e))"

definition py_true_div :: "int \<Rightarrow> int \<Rightarrow> real" where
  \<comment> \<open>\<open>a / b\<close> of two integers, \<open>b\<close> not zero\<close>
  "py_true_div a b = round_double (of_int a / of_int b)"

definition float_mul :: "real \<Rightarrow> real \<Rightarrow> real" where
  "float_mul a b = round_double (a * b)"

definition py_round2 :: "real \<Rightarrow> real" where
  \<comment> \<open>\<open>round(x, 2)\<close> of a float\<close>
  "py_round2 x = round_double (of_int (round_half_even (x * 100)) / 100)"

function count_working_days :: "date \<Rightarrow> date \<Rightarrow> date set \<Rightarrow> int \<Rightarrow> error + int" where
  "count_working_days current end_date holiday_dates total_working_days =
     (if current \<le> end_date then
        (case date_add_days current 1 of
           Inl e \<Rightarrow> Inl e
         | Inr next_day \<Rightarrow>
             count_working_days next_day end_date holiday_dates
               (if is_working_day holiday_dates current then total_working_days + 1
                else total_working_days))
      else Inr total_working_days)"
  by pat_completeness auto
termination
  by (relation "measure (\<lambda>(current, end_date, holiday_dates, total). nat (end_date - current + 1))")
     (auto simp: date_add_days_def split: if_splits)

definition records_by_date :: "AttendanceRecord list \<Rightarrow> (date \<rightharpoonup> AttendanceRecord)" where
  \<comment> \<open>\<open>{r.attendance_date: r for r in records}\<close>: a later row replaces an earlier one\<close>
  "records_by_date records = fold (\<lambda>r m. m(rec_attendance_date r \<mapsto> r)) records Map.empty"

function synthesize_history ::
  "date \<Rightarrow> date \<Rightarrow> date set \<Rightarrow> (date \<rightharpoonup> AttendanceRecord) \<Rightarrow> date \<Rightarrow> nat
     \<Rightarrow> history_entry list \<Rightarrow> error + history_entry list" where
  "synthesize_history current start_date holiday_dates by_date today student_id full_history =
     (if start_date \<le> current then
        (case date_add_days current (- 1) of
           Inl e \<Rightarrow> Inl e
         | Inr previous_day \<Rightarrow>
             synthesize_history previous_day start_date holiday_dates by_date today student_id
               (if is_working_day holiday_dates current then
                  (case by_date current of
                     Some r \<Rightarrow> full_history @ [RealRecord r]
                   | None \<Rightarrow>
                       if current \<le> today
                       then full_history @ [VirtualAbsent student_id current]
                       else full_history)
                else full_history))
      else Inr full_history)"
  by pat_completeness auto
termination
  by (relation "measure (\<lambda>(current, start_date, holiday_dates, by_date, today, student_id, h).
                   nat (current - start_date + 1))")
     (auto simp: date_add_days_def split: if_splits)

definition student_records_in_range :: "db \<Rightarrow> nat \<Rightarrow> date \<Rightarrow> date \<Rightarrow> AttendanceRecord list" where
  \<comment> \<open>the query of the statistics, ordered by date, latest first\<close>
  "student_records_in_range s student_id start_date end_date =
     rev (sort_key rec_attendance_date
       (filter (\<lambda>r. rec_student_id r = student_id \<and> start_date \<le> rec_attendance_date r
                     \<and> rec_attendance_date r \<le> end_date) (db_records s)))"

text \<open>
  \<open>configured\<close> is what \<open>SettingsRepository.get_academic_year_dates\<close> returns and
  \<open>today\<close> is \<open>date.today()\<close>.  The source increments \<open>current\<close> after the test of
  each day, also of the last one, so a range that ends on \<open>date.max\<close> (or starts on
  \<open>date.min\<close>) ends in \<open>OverflowError\<close>.
\<close>

definition get_student_attendance_stats ::
  "db \<Rightarrow> date \<times> date \<Rightarrow> date \<Rightarrow> nat \<Rightarrow> date option \<Rightarrow> date option \<Rightarrow> error + attendance_stats" where
  "get_student_attendance_stats s configured today student_id start_arg end_arg =
     (let end_date0 = (case end_arg of None \<Rightarrow> today | Some e \<Rightarrow> e);
          start_date = (case start_arg of None \<Rightarrow> fst configured | Some d \<Rightarrow> d);
          end_date = (case start_arg of
                        None \<Rightarrow> if snd configured < end_date0 then snd configured else end_date0
                      | Some d \<Rightarrow> end_date0);
          records = student_records_in_range s student_id start_date end_date;
          present_count = int (length (filter (\<lambda>r. rec_status r = PRESENT) records));
          holiday_dates = get_holiday_dates_in_range s start_date end_date
      in case count_working_days start_date end_date holiday_dates 0 of
           Inl e \<Rightarrow> Inl e
         | Inr total_working_days \<Rightarrow>
             (let absent_count = (if total_working_days - present_count < 0 then 0
                                  else total_working_days - present_count);
                  percentage = (if 0 < total_working_days
                                then float_mul (py_true_div present_count total_working_days) 100
                                else 0);
                  holidays = get_holidays_in_range s start_date end_date
              in case synthesize_history end_date start_date holiday_dates
                        (records_by_date records) today student_id [] of
                   Inl e \<Rightarrow> Inl e
                 | Inr full_history \<Rightarrow>
                     Inr \<lparr> st_start_date = start_date, st_end_date = end_date,
                           st_total_working_days = total_working_days,
                           st_holidays_count = card holiday_dates,
                           st_present_days = present_count,
                           st_absent_days = absent_count,
                           st_attendance_percentage = py_round2 percentage,
                           st_records = full_history,
                           st_holidays = holidays \<rparr>))"

text \<open>
  What one iteration of the history loop appends for the day \<open>d\<close>; the loops are
  related to it below.
\<close>

definition history_of_day ::
  "date set \<Rightarrow> (date \<rightharpoonup> AttendanceRecord) \<Rightarrow> date \<Rightarrow> nat \<Rightarrow> date \<Rightarrow> history_entry list" where
  "history_of_day H by_date today student_id d =
     (if is_working_day H d then
        (case by_date d of
           Some r \<Rightarrow> [RealRecord r]
         | None \<Rightarrow> if d \<le> today then [VirtualAbsent student_id d] else [])
      else [])"

text \<open>
  The week from Monday 2024-12-30 (day 739250) to Sunday 2025-01-05 with the holiday of
  2025-01-01 and student 7 present on Monday, Tuesday, Thursday and Friday.
\<close>

definition present_record :: "nat \<Rightarrow> nat \<Rightarrow> date \<Rightarrow> AttendanceRecord" where
  "present_record rid student_id d =
     \<lparr> rec_id = rid, rec_student_id = student_id, rec_attendance_date = d,
       rec_status = PRESENT, rec_location_latitude = Some 0, rec_location_longitude = Some 0,
       rec_location_accuracy = Some 10, rec_face_match_confidence = Some (9 / 10),
       rec_marked_at = Some (d, mk_time 9 15) \<rparr>"

definition db_example_week :: db where
  "db_example_week =
     db_one_holiday\<lparr>db_records :=
       [present_record 1 7 739250, present_record 2 7 739251,
        present_record 3 7 739253, present_record 4 7 739254]\<rparr>"

section \<open>Geofences\<close>

record GeofenceCreate =
  gc_name :: string
  gc_description :: "string option"
  gc_latitude :: real
  gc_longitude :: real
  gc_radius_meters :: real
  gc_accuracy_threshold :: real
  gc_is_primary :: bool

text \<open>
  \<open>GeofenceUpdate\<close>: every field is optional and \<open>model_dump(exclude_unset=True)\<close> keeps
  the fields the request sets, an explicit \<open>null\<close> included.  A field of the request is
  left out (\<open>Unset\<close>), \<open>null\<close> (\<open>SetNull\<close>) or a value (\<open>SetTo\<close>).
\<close>

datatype 'a update_field = Unset | SetNull | SetTo 'a

record GeofenceUpdate =
  gu_name :: "string update_field"
  gu_description :: "string update_field"
  gu_latitude :: "real update_field"
  gu_longitude :: "real update_field"
  gu_radius_meters :: "real update_field"
  gu_accuracy_threshold :: "real update_field"
  gu_is_active :: "bool update_field"
  gu_is_primary :: "bool update_field"

definition get_primary_active_geofence :: "db \<Rightarrow> error + CampusGeofence option" where
  "get_primary_active_geofence s =
     scalar_one_or_none (filter (\<lambda>g. gf_is_active g \<and> gf_is_primary g) (db_geofences s))"

definition geofence_get_by_id :: "db \<Rightarrow> nat \<Rightarrow> error + CampusGeofence option" where
  "geofence_get_by_id s geofence_id =
     scalar_one_or_none (filter (\<lambda>g. gf_id g = geofence_id) (db_geofences s))"

definition geofence_store :: "db \<Rightarrow> CampusGeofence \<Rightarrow> db" where
  \<comment> \<open>the flush of a changed row: the row with this primary key is replaced\<close>
  "geofence_store s g =
     s\<lparr>db_geofences := map (\<lambda>x. if gf_id x = gf_id g then g else x) (db_geofences s)\<rparr>"

definition create_geofence :: "db \<Rightarrow> GeofenceCreate \<Rightarrow> nat \<Rightarrow> error + CampusGeofence \<times> db" where
  "create_geofence s data admin_id =
     (case (if gc_is_primary data then
              (case get_primary_active_geofence s of
                 Inl e \<Rightarrow> Inl e
               | Inr None \<Rightarrow> Inr s
               | Inr (Some existing_primary) \<Rightarrow>
                   Inr (geofence_store s (existing_primary\<lparr>gf_is_primary := False\<rparr>)))
            else Inr s) of
        Inl e \<Rightarrow> Inl e
      | Inr s1 \<Rightarrow>
          (let geofence =
             \<lparr> gf_id = fresh_id (map gf_id (db_geofences s1)), gf_name = gc_name data,
               gf_description = gc_description data, gf_latitude = gc_latitude data,
               gf_longitude = gc_longitude data, gf_radius_meters = gc_radius_meters data,
               gf_accuracy_threshold = gc_accuracy_threshold data, gf_is_active = True,
               gf_is_primary = gc_is_primary data, gf_created_by = Some admin_id \<rparr>
           in Inr (geofence, s1\<lparr>db_geofences := db_geofences s1 @ [geofence]\<rparr>)))"

fun updated :: "'a update_field \<Rightarrow> 'a \<Rightarrow> 'a" where
  \<comment> \<open>the attribute after \<open>setattr\<close> with a value, or as it was when the field is left out\<close>
  "updated (SetTo v) old = v"
| "updated Unset old = old"
| "updated SetNull old = old"

definition apply_geofence_update :: "CampusGeofence \<Rightarrow> GeofenceUpdate \<Rightarrow> CampusGeofence" where
  \<comment> \<open>the loop \<open>for field, value in ...: setattr(geofence, field, value)\<close>, for a request
      without a \<open>null\<close> in a column that is not nullable\<close>
  "apply_geofence_update g data =
     g\<lparr> gf_name := updated (gu_name data) (gf_name g),
        gf_description :=
          (case gu_description data of
             Unset \<Rightarrow> gf_description g | SetNull \<Rightarrow> None | SetTo v \<Rightarrow> Some v),
        gf_latitude := updated (gu_latitude data) (gf_latitude g),
        gf_longitude := updated (gu_longitude data) (gf_longitude g),
        gf_radius_meters := updated (gu_radius_meters data) (gf_radius_meters g),
        gf_accuracy_threshold := updated (gu_accuracy_threshold data) (gf_accuracy_threshold g),
        gf_is_active := updated (gu_is_active data) (gf_is_active g),
        gf_is_primary := updated (gu_is_primary data) (gf_is_primary g) \<rparr>"

definition null_in_required_column :: "GeofenceUpdate \<Rightarrow> bool" where
  \<comment> \<open>every column but \<open>description\<close> is declared without \<open>Optional\<close>, so it is
      \<open>NOT NULL\<close>\<close>
  "null_in_required_column data =
     (gu_name data = SetNull \<or> gu_latitude data = SetNull \<or> gu_longitude data = SetNull
      \<or> gu_radius_meters data = SetNull \<or> gu_accuracy_threshold data = SetNull
      \<or> gu_is_active data = SetNull \<or> gu_is_primary data = SetNull)"

text \<open>
  \<open>update_geofence\<close>: the flush of a row with \<open>None\<close> in a \<open>NOT NULL\<close> column fails
  with \<open>IntegrityError\<close>.
\<close>

definition update_geofence :: "db \<Rightarrow> nat \<Rightarrow> GeofenceUpdate \<Rightarrow> error + CampusGeofence \<times> db" where
  "update_geofence s geofence_id data =
     (case geofence_get_by_id s geofence_id of
        Inl e \<Rightarrow> Inl e
      | Inr None \<Rightarrow> Inl (ValueError ''Geofence not found'')
      | Inr (Some geofence) \<Rightarrow>
          if null_in_required_column data
          then Inl (IntegrityError ''NOT NULL constraint failed: campus_geofences'')
          else (let geofence' = apply_geofence_update geofence data
                in Inr (geofence', geofence_store s geofence')))"

definition delete_geofence :: "db \<Rightarrow> nat \<Rightarrow> error + db" where
  "delete_geofence s geofence_id =
     (case geofence_get_by_id s geofence_id of
        Inl e \<Rightarrow> Inl e
      | Inr None \<Rightarrow> Inl (ValueError ''Geofence not found'')
      | Inr (Some geofence) \<Rightarrow>
          Inr (s\<lparr>db_geofences := filter (\<lambda>g. gf_id g \<noteq> geofence_id) (db_geofences s)\<rparr>))"

definition primary_active_count :: "db \<Rightarrow> nat" where
  "primary_active_count s =
     length (filter (\<lambda>g. gf_is_active g \<and> gf_is_primary g) (db_geofences s))"

definition campus_geofence :: "nat \<Rightarrow> string \<Rightarrow> bool \<Rightarrow> CampusGeofence" where
  "campus_geofence gid name is_primary =
     \<lparr> gf_id = gid, gf_name = name, gf_description = None, gf_latitude = 0, gf_longitude = 0,
       gf_radius_meters = 500, gf_accuracy_threshold = 50, gf_is_active = True,
       gf_is_primary = is_primary, gf_created_by = Some 1 \<rparr>"

definition db_two_geofences :: db where
  "db_two_geofences =
     empty_db\<lparr>db_geofences := [campus_geofence 1 ''Main'' True, campus_geofence 2 ''Annex'' False]\<rparr>"

definition make_primary :: GeofenceUpdate where
  \<comment> \<open>the request body \<open>{"is_primary": true}\<close>\<close>
  "make_primary =
     \<lparr> gu_name = Unset, gu_description = Unset, gu_latitude = Unset, gu_longitude = Unset,
       gu_radius_meters = Unset, gu_accuracy_threshold = Unset, gu_is_active = Unset,
       gu_is_primary = SetTo True \<rparr>"

section \<open>Profile photos\<close>

function str_nat :: "nat \<Rightarrow> string" where
  \<comment> \<open>\<open>str(n)\<close> of a non-negative integer\<close>
  "str_nat n = (if n < 10 then [''0123456789'' ! n]
                else str_nat (n div 10) @ [''0123456789'' ! (n mod 10)])"
  by pat_completeness auto
termination
  by (relation "measure id") auto

text \<open>
  The table has the unique constraint \<open>uq_student_approved_photo\<close> on
  \<open>(student_id, status)\<close>; a flush that would leave two rows of one student with the same
  status fails with \<open>IntegrityError\<close>.
\<close>

definition photo_unique :: "ProfilePhoto list \<Rightarrow> bool" where
  "photo_unique ps = distinct (map (\<lambda>p. (ph_student_id p, ph_status p)) ps)"

definition photo_flush :: "db \<Rightarrow> ProfilePhoto list \<Rightarrow> error + db" where
  "photo_flush s ps =
     (if photo_unique ps then Inr (s\<lparr>db_photos := ps\<rparr>)
      else Inl (IntegrityError ''uq_student_approved_photo''))"

definition photo_store :: "ProfilePhoto list \<Rightarrow> ProfilePhoto \<Rightarrow> ProfilePhoto list" where
  \<comment> \<open>a changed row replaces the row with its primary key\<close>
  "photo_store ps p = map (\<lambda>x. if ph_id x = ph_id p then p else x) ps"

definition photo_get_by_id :: "db \<Rightarrow> nat \<Rightarrow> error + ProfilePhoto option" where
  "photo_get_by_id s photo_id =
     scalar_one_or_none (filter (\<lambda>p. ph_id p = photo_id) (db_photos s))"

definition get_approved_photo_for_student :: "db \<Rightarrow> nat \<Rightarrow> error + ProfilePhoto option" where
  "get_approved_photo_for_student s student_id =
     scalar_one_or_none
       (filter (\<lambda>p. ph_student_id p = student_id \<and> ph_status p = APPROVED) (db_photos s))"

definition validate_face_image :: "nat \<Rightarrow> bool \<times> string" where
  \<comment> \<open>\<open>FaceRecognitionService.validate_face_image\<close> on a stored file in which
      \<open>detect_faces\<close> finds \<open>face_count\<close> faces\<close>
  "validate_face_image face_count =
     (if face_count = 0 then (False, ''No face detected in image'')
      else if 1 < face_count
        then (False, ''Multiple faces detected ('' @ str_nat face_count @ '')'')
      else (True, ''Valid face image''))"

text \<open>
  \<open>upload_profile_photo\<close>: \<open>file_path\<close> and \<open>safe_filename\<close> are the path and name the
  upload was saved under, \<open>face_count\<close> is what \<open>detect_faces\<close> returns for it and
  \<open>encoding\<close> the JSON of \<open>extract_face_encoding\<close> (\<open>None\<close> when there is none).
\<close>

definition upload_profile_photo ::
  "db \<Rightarrow> User \<Rightarrow> string \<Rightarrow> string \<Rightarrow> nat \<Rightarrow> string option \<Rightarrow> error + ProfilePhoto \<times> db" where
  "upload_profile_photo s student file_path safe_filename face_count encoding =
     (case validate_face_image face_count of
        (is_valid, error_msg) \<Rightarrow>
          if \<not> is_valid then Inl (ValueError (''Invalid profile photo: '' @ error_msg))
          else (case encoding of
                  None \<Rightarrow> Inl (ValueError ''Could not extract face encoding from image'')
                | Some enc \<Rightarrow>
                    (let photo =
                       \<lparr> ph_id = fresh_id (map ph_id (db_photos s)),
                         ph_student_id = user_id student, ph_file_path = file_path,
                         ph_filename = safe_filename, ph_face_encoding = Some enc,
                         ph_status = PHOTO_PENDING, ph_rejection_reason = None,
                         ph_reviewed_by = None, ph_reviewed_at = None \<rparr>
                     in case photo_flush s (db_photos s @ [photo]) of
                          Inl e \<Rightarrow> Inl e
                        | Inr s' \<Rightarrow> Inr (photo, s'))))"

record ProfilePhotoApproval =
  pa_approved :: bool
  pa_rejection_reason :: "string option"

definition finish_review ::
  "db \<Rightarrow> ProfilePhoto \<Rightarrow> nat \<Rightarrow> datetime \<Rightarrow> error + ProfilePhoto \<times> db" where
  \<comment> \<open>the last four statements of \<open>review_profile_photo\<close>\<close>
  "finish_review s photo reviewer_id now =
     (let photo' = photo\<lparr>ph_reviewed_by := Some reviewer_id, ph_reviewed_at := Some now\<rparr>
      in case photo_flush s (photo_store (db_photos s) photo') of
           Inl e \<Rightarrow> Inl e
         | Inr s' \<Rightarrow> Inr (photo', s'))"

definition review_profile_photo ::
  "db \<Rightarrow> nat \<Rightarrow> nat \<Rightarrow> ProfilePhotoApproval \<Rightarrow> datetime \<Rightarrow> error + ProfilePhoto \<times> db" where
  "review_profile_photo s photo_id reviewer_id approval now =
     (case photo_get_by_id s photo_id of
        Inl e \<Rightarrow> Inl e
      | Inr None \<Rightarrow> Inl (ValueError ''Profile photo not found'')
      | Inr (Some photo) \<Rightarrow>
          if ph_status photo \<noteq> PHOTO_PENDING
          then Inl (ValueError ''Photo has already been reviewed'')
          else if pa_approved approval then
            (case get_approved_photo_for_student s (ph_student_id photo) of
               Inl e \<Rightarrow> Inl e
             | Inr existing \<Rightarrow>
                 (case (case existing of
                          None \<Rightarrow> Inr s
                        | Some existing_approved \<Rightarrow>
                            if ph_id existing_approved \<noteq> ph_id photo
                            then photo_flush s
                                   (photo_store (db_photos s)
                                      (existing_approved
                                         \<lparr>ph_status := REJECTED,
                                          ph_rejection_reason :=
                                            Some ''Replaced by new approved photo''\<rparr>))
                            else Inr s) of
                    Inl e \<Rightarrow> Inl e
                  | Inr s1 \<Rightarrow>
                      finish_review s1 (photo\<lparr>ph_status := APPROVED\<rparr>) reviewer_id now))
          else
            finish_review s
              (photo\<lparr>ph_status := REJECTED,
                     ph_rejection_reason :=
                       Some (case pa_rejection_reason approval of
                               None \<Rightarrow> ''Photo rejected by admin''
                             | Some reason \<Rightarrow>
                                 if reason = [] then ''Photo rejected by admin'' else reason)\<rparr>)
              reviewer_id now)"

definition single_approved :: "db \<Rightarrow> bool" where
  \<comment> \<open>no student has two \<open>APPROVED\<close> photos\<close>
  "single_approved s =
     distinct (map ph_student_id (filter (\<lambda>p. ph_status p = APPROVED) (db_photos s)))"

definition student_photo :: "nat \<Rightarrow> nat \<Rightarrow> ProfilePhotoStatus \<Rightarrow> ProfilePhoto" where
  "student_photo pid student_id status =
     \<lparr> ph_id = pid, ph_student_id = student_id, ph_file_path = ''uploads/profile_photos/p.jpg'',
       ph_filename = ''p.jpg'', ph_face_encoding = Some ''[0.1]'', ph_status = status,
       ph_rejection_reason = None, ph_reviewed_by = None, ph_reviewed_at = None \<rparr>"

definition db_two_photos :: db where
  \<comment> \<open>student 7 with an approved photo and a newer pending one\<close>
  "db_two_photos =
     empty_db\<lparr>db_photos := [student_photo 1 7 APPROVED, student_photo 2 7 PHOTO_PENDING]\<rparr>"

definition approve :: ProfilePhotoApproval where
  "approve = \<lparr> pa_approved = True, pa_rejection_reason = None \<rparr>"

definition student_7 :: User where
  "student_7 = \<lparr> user_id = 7, user_student_category = None \<rparr>"

section \<open>Marking attendance\<close>

record LocationData =
  loc_latitude :: real
  loc_longitude :: real
  loc_accuracy :: real

record AttendanceMarkResult =
  res_success :: bool
  res_message :: string
  res_attendance_status :: "AttendanceStatus option"
  res_failure_reason :: "FailureReason option"
  res_face_match_score :: "real option"

text \<open>
  What a call reads from outside the database: the clock (\<open>date.today()\<close> and
  \<open>datetime.now()\<close>, which is also the \<open>now()\<close> the database stamps an attempt with),
  the path the captured image is saved under, and the face recognition service
  (\<open>detect_faces\<close> and \<open>verify_face\<close>, neither of which raises).
  \<open>_haversine_distance\<close> evaluates the haversine formula with the library's \<open>sin\<close>,
  \<open>cos\<close> and \<open>atan2\<close> on doubles; its value is a parameter here, so what is proved holds
  for whatever distance it returns.
\<close>

record externals =
  ext_today :: date
  ext_now :: datetime
  ext_haversine_distance :: "real \<Rightarrow> real \<Rightarrow> real \<Rightarrow> real \<Rightarrow> real"
  ext_capture_path :: string
  ext_detect_faces :: "string \<Rightarrow> nat"
  ext_verify_face :: "string \<Rightarrow> string \<Rightarrow> bool \<times> real \<times> string"

definition MAX_DAILY_ATTEMPTS :: nat where
  "MAX_DAILY_ATTEMPTS = 5"

definition is_within_geofence :: "externals \<Rightarrow> LocationData \<Rightarrow> CampusGeofence \<Rightarrow> bool \<times> real" where
  "is_within_geofence env location geofence =
     (let distance = ext_haversine_distance env (loc_latitude location) (loc_longitude location)
                       (gf_latitude geofence) (gf_longitude geofence)
      in (distance \<le> gf_radius_meters geofence, distance))"

definition get_student_record_for_date :: "db \<Rightarrow> nat \<Rightarrow> date \<Rightarrow> error + AttendanceRecord option" where
  "get_student_record_for_date s student_id attendance_date =
     scalar_one_or_none
       (filter (\<lambda>r. rec_student_id r = student_id \<and> rec_attendance_date r = attendance_date)
          (db_records s))"

definition datetime_le :: "datetime \<Rightarrow> datetime \<Rightarrow> bool" where
  "datetime_le a b = (fst a < fst b \<or> (fst a = fst b \<and> snd a \<le> snd b))"

definition count_today_attempts :: "db \<Rightarrow> externals \<Rightarrow> nat \<Rightarrow> nat" where
  \<comment> \<open>\<open>today_start\<close> is \<open>datetime.now()\<close> with the time of day set to midnight\<close>
  "count_today_attempts s env student_id =
     length (filter (\<lambda>a. att_student_id a = student_id
                          \<and> datetime_le (fst (ext_now env), 0) (att_attempted_at a))
               (db_attempts s))"

definition attempt_create :: "db \<Rightarrow> externals \<Rightarrow> AttendanceAttempt \<Rightarrow> db" where
  \<comment> \<open>\<open>AttendanceAttemptRepository.create\<close>: the insert gives the row its primary key
      and its \<open>attempted_at\<close>\<close>
  "attempt_create s env attempt =
     s\<lparr>db_attempts :=
          db_attempts s @
            [attempt\<lparr>att_id := fresh_id (map att_id (db_attempts s)),
                     att_attempted_at := ext_now env\<rparr>]\<rparr>"

definition new_attempt :: "User \<Rightarrow> LocationData \<Rightarrow> AttendanceAttempt" where
  \<comment> \<open>\<open>AttendanceAttempt(student_id=..., location_...=...)\<close>; the other columns have
      their defaults\<close>
  "new_attempt student location =
     \<lparr> att_id = 0, att_student_id = user_id student, att_attempted_at = (0, 0),
       att_success = False, att_failure_reason = None, att_failure_details = None,
       att_location_latitude = Some (loc_latitude location),
       att_location_longitude = Some (loc_longitude location),
       att_location_accuracy = Some (loc_accuracy location),
       att_captured_image_path = None, att_face_match_score = None, att_geofence_id = None \<rparr>"

definition failure_result ::
  "string \<Rightarrow> FailureReason \<Rightarrow> real option \<Rightarrow> AttendanceMarkResult" where
  "failure_result message reason score =
     \<lparr> res_success = False, res_message = message, res_attendance_status = None,
       res_failure_reason = Some reason, res_face_match_score = score \<rparr>"

definition fail_attempt ::
  "AttendanceAttempt \<Rightarrow> FailureReason \<Rightarrow> failure_details option \<Rightarrow> AttendanceAttempt" where
  "fail_attempt attempt reason details =
     attempt\<lparr>att_success := False, att_failure_reason := Some reason,
             att_failure_details := details\<rparr>"

definition upsert_present ::
  "db \<Rightarrow> externals \<Rightarrow> User \<Rightarrow> LocationData \<Rightarrow> real \<Rightarrow> AttendanceRecord option \<Rightarrow> db" where
  \<comment> \<open>the \<open>if existing_record: ... else: ...\<close> at the end of \<open>mark_attendance\<close>\<close>
  "upsert_present s env student location similarity_score existing =
     (case existing of
        Some existing_record \<Rightarrow>
          s\<lparr>db_records :=
               map (\<lambda>r. if rec_id r = rec_id existing_record
                          then existing_record
                                 \<lparr>rec_status := PRESENT, rec_marked_at := Some (ext_now env),
                                  rec_location_latitude := Some (loc_latitude location),
                                  rec_location_longitude := Some (loc_longitude location),
                                  rec_location_accuracy := Some (loc_accuracy location),
                                  rec_face_match_confidence := Some similarity_score\<rparr>
                          else r) (db_records s)\<rparr>
      | None \<Rightarrow>
          s\<lparr>db_records :=
               db_records s @
                 [\<lparr> rec_id = fresh_id (map rec_id (db_records s)),
                    rec_student_id = user_id student, rec_attendance_date = ext_today env,
                    rec_status = PRESENT,
                    rec_location_latitude = Some (loc_latitude location),
                    rec_location_longitude = Some (loc_longitude location),
                    rec_location_accuracy = Some (loc_accuracy location),
                    rec_face_match_confidence = Some similarity_score,
                    rec_marked_at = Some (ext_now env) \<rparr>]\<rparr>)"

definition mark_attendance ::
  "db \<Rightarrow> externals \<Rightarrow> User \<Rightarrow> LocationData \<Rightarrow> error + AttendanceMarkResult \<times> db" where
  "mark_attendance s env student location =
     (let attempt = new_attempt student location in
      case get_primary_active_geofence s of
        Inl e \<Rightarrow> Inl e
      | Inr None \<Rightarrow>
          Inr (failure_result ''Campus geofence not configured'' OUTSIDE_CAMPUS None,
               attempt_create s env
                 (fail_attempt attempt OUTSIDE_CAMPUS (Some GeofenceNotConfigured)))
      | Inr (Some geofence) \<Rightarrow>
          (let attempt = attempt\<lparr>att_geofence_id := Some (gf_id geofence)\<rparr> in
           if gf_accuracy_threshold geofence < loc_accuracy location then
             Inr (failure_result ''GPS accuracy too low. Please move to an open area.''
                    LOW_GPS_ACCURACY None,
                  attempt_create s env
                    (fail_attempt attempt LOW_GPS_ACCURACY
                       (Some (AccuracyExceedsThreshold (loc_accuracy location)
                                (gf_accuracy_threshold geofence)))))
           else
             (case is_within_geofence env location geofence of
                (is_within, distance) \<Rightarrow>
                  if \<not> is_within then
                    Inr (failure_result ''You are outside the campus boundary'' OUTSIDE_CAMPUS None,
                         attempt_create s env
                           (fail_attempt attempt OUTSIDE_CAMPUS
                              (Some (DistanceFromCenter distance (gf_radius_meters geofence)))))
                  else
                    (let capture_path = ext_capture_path env;
                         attempt = attempt\<lparr>att_captured_image_path := Some capture_path\<rparr>;
                         face_count = ext_detect_faces env capture_path
                     in
                     if face_count = 0 then
                       Inr (failure_result
                              ''No face detected. Please ensure your face is clearly visible.''
                              NO_FACE_DETECTED None,
                            attempt_create s env
                              (fail_attempt attempt NO_FACE_DETECTED (Some NoFaceInCapture)))
                     else if 1 < face_count then
                       Inr (failure_result
                              ''Multiple faces detected. Only you should be in the frame.''
                              MULTIPLE_FACES None,
                            attempt_create s env
                              (fail_attempt attempt MULTIPLE_FACES
                                 (Some (FacesDetected face_count))))
                     else
                       (case get_approved_photo_for_student s (user_id student) of
                          Inl e \<Rightarrow> Inl e
                        | Inr None \<Rightarrow>
                            Inr (failure_result ''Profile photo not approved''
                                   PROFILE_NOT_APPROVED None,
                                 attempt_create s env
                                   (fail_attempt attempt PROFILE_NOT_APPROVED None))
                        | Inr (Some approved_photo) \<Rightarrow>
                            (case ext_verify_face env (ph_file_path approved_photo) capture_path of
                               (is_match, similarity_score, message) \<Rightarrow>
                                 (let attempt =
                                        attempt\<lparr>att_face_match_score := Some similarity_score\<rparr>
                                  in
                                  if \<not> is_match then
                                    Inr (failure_result
                                           ''Face verification failed. Please try again.''
                                           FACE_MISMATCH (Some similarity_score),
                                         attempt_create s env
                                           (fail_attempt attempt FACE_MISMATCH
                                              (Some (FaceMatchScore similarity_score))))
                                  else
                                    (let s1 = attempt_create s env (attempt\<lparr>att_success := True\<rparr>)
                                     in
                                     case get_student_record_for_date s1 (user_id student)
                                            (ext_today env) of
                                       Inl e \<Rightarrow> Inl e
                                     | Inr existing_record \<Rightarrow>
                                         Inr (\<lparr> res_success = True,
                                                 res_message = ''Attendance marked successfully!'',
                                                 res_attendance_status = Some PRESENT,
                                                 res_failure_reason = None,
                                                 res_face_match_score = Some similarity_score \<rparr>,
                                              upsert_present s1 env student location
                                                similarity_score existing_record)))))))))"

section \<open>The pre-check and the endpoint\<close>

record AttendancePreCheckOut =
  pc_can_mark :: bool
  pc_blockers :: "string list"
  pc_profile_approved :: bool
  pc_within_time_window :: bool
  pc_already_marked_today :: bool

fun join_strings :: "string \<Rightarrow> string list \<Rightarrow> string" where
  \<comment> \<open>\<open>sep.join(xs)\<close>\<close>
  "join_strings sep [] = []"
| "join_strings sep [x] = x"
| "join_strings sep (x # y # ys) = x @ sep @ join_strings sep (y # ys)"

text \<open>
  \<open>check_attendance_prerequisites\<close>: the blockers are collected in the order of the
  source; a lookup that raises ends the call.
\<close>

definition check_attendance_prerequisites ::
  "db \<Rightarrow> externals \<Rightarrow> User \<Rightarrow> error + AttendancePreCheckOut" where
  "check_attendance_prerequisites s env student =
     (let today = ext_today env;
          blockers0 = (if weekday today = 6 then [''Attendance is not required on Sundays'']
                       else [])
      in case holiday_get_by_date s today of
           Inl e \<Rightarrow> Inl e
         | Inr holiday \<Rightarrow>
        (let blockers1 = blockers0 @
               (case holiday of
                  None \<Rightarrow> []
                | Some h \<Rightarrow> [''Today is a holiday: '' @ hol_name h])
         in case get_approved_photo_for_student s (user_id student) of
              Inl e \<Rightarrow> Inl e
            | Inr approved_photo \<Rightarrow>
           (let profile_approved = (approved_photo \<noteq> None);
                blockers2 = blockers1 @
                  (if \<not> profile_approved then [''Profile photo not approved''] else []);
                current_time = snd (ext_now env);
                current_day = weekday (fst (ext_now env));
                is_open = within_time_window (db_windows s) (user_student_category student)
                            current_time current_day;
                blockers3 = blockers2 @
                  (if \<not> is_open then [''Outside attendance time window''] else [])
            in case get_student_record_for_date s (user_id student) today of
                 Inl e \<Rightarrow> Inl e
               | Inr existing_record \<Rightarrow>
              (let already_marked_today =
                     (case existing_record of
                        None \<Rightarrow> False
                      | Some r \<Rightarrow> rec_status r = PRESENT);
                   blockers4 = blockers3 @
                     (if already_marked_today then [''Attendance already marked today''] else []);
                   attempt_count = count_today_attempts s env (user_id student);
                   blockers5 = blockers4 @
                     (if MAX_DAILY_ATTEMPTS \<le> attempt_count
                      then [''Maximum attempts ('' @ str_nat MAX_DAILY_ATTEMPTS
                              @ '') reached for today'']
                      else [])
               in case get_primary_active_geofence s of
                    Inl e \<Rightarrow> Inl e
                  | Inr primary_geofence \<Rightarrow>
                 (let blockers = blockers5 @
                        (if primary_geofence = None then [''Campus geofence not configured'']
                         else [])
                  in Inr \<lparr> pc_can_mark = (blockers = []), pc_blockers = blockers,
                           pc_profile_approved = profile_approved,
                           pc_within_time_window = is_open,
                           pc_already_marked_today = already_marked_today \<rparr>)))))"

definition location_valid :: "real \<Rightarrow> real \<Rightarrow> real \<Rightarrow> bool" where
  \<comment> \<open>the field constraints of \<open>LocationData\<close>\<close>
  "location_valid latitude longitude accuracy =
     (- 90 \<le> latitude \<and> latitude \<le> 90 \<and> - 180 \<le> longitude \<and> longitude \<le> 180
      \<and> 0 \<le> accuracy)"

text \<open>
  The route \<open>POST /attendance/mark\<close>: \<open>content_type\<close> is the content type of the
  uploaded file.  The error \<open>HTTPException 500 ...\<close> stands for the validation error
  that the constructor of \<open>LocationData\<close> raises.
\<close>

definition mark_attendance_endpoint ::
  "db \<Rightarrow> externals \<Rightarrow> User \<Rightarrow> string option \<Rightarrow> real \<Rightarrow> real \<Rightarrow> real
     \<Rightarrow> error + AttendanceMarkResult \<times> db" where
  "mark_attendance_endpoint s env current_user content_type latitude longitude accuracy =
     (if (case content_type of None \<Rightarrow> True | Some ct \<Rightarrow> ct = [] \<or> take 6 ct \<noteq> ''image/'')
      then Inl (HTTPException 400 ''File must be an image'')
      else if \<not> location_valid latitude longitude accuracy
      then Inl (HTTPException 500 ''LocationData validation error'')
      else
        (let location = \<lparr> loc_latitude = latitude, loc_longitude = longitude,
                           loc_accuracy = accuracy \<rparr>
         in case check_attendance_prerequisites s env current_user of
              Inl e \<Rightarrow> Inl e
            | Inr pre_check \<Rightarrow>
                if \<not> pc_can_mark pre_check
                then Inl (HTTPException 400
                            (''Cannot mark attendance: ''
                               @ join_strings '', '' (pc_blockers pre_check)))
                else mark_attendance s env current_user location))"







section \<open>Properties of the time-window check\<close>

lemma is_within_time_window_iff:
  "is_within_time_window ws t d =
     (\<exists>w \<in> set ws. d \<in> set (win_days_of_week w) \<and> win_start_time w \<le> t \<and> t \<le> win_end_time w)"
  by (induction ws) auto

text \<open>
  C8, as the claim states it, fails: a student without a category is offered a window
  that is reserved for hostellers.
\<close>

theorem within_time_window_counterexample:
  "within_time_window [example_window (Some ''HOSTELLER'')] None (mk_time 9 15) 2 = True
   \<and> isOpen_spec [example_window (Some ''HOSTELLER'')] (mk_time 9 15) 2 None = False"
  by (simp add: within_time_window_def get_active_windows_def isOpen_spec_def
      example_window_def mk_time_def)

text \<open>
  C8, amended: the check is true exactly when some active window lists the weekday,
  contains the time (both bounds included) and, when the student has a category, is
  unrestricted or restricted to that category; a student without a category is not
  filtered by category at all.  The example window is open on Wednesday 09:15, closed on
  Wednesday 09:31 and closed on Sunday 09:15 and at every other time of a Sunday.
\<close>

theorem within_time_window_amended:
  "within_time_window table category t d =
     (\<exists>w \<in> set table.
        win_is_active w \<and> d \<in> set (win_days_of_week w)
        \<and> (category = None \<or> win_student_category w = None
             \<or> win_student_category w = map_option category_value category)
        \<and> win_start_time w \<le> t \<and> t \<le> win_end_time w)
   \<and> within_time_window [example_window None] category (mk_time 9 15) 2 = True
   \<and> within_time_window [example_window None] category (mk_time 9 31) 2 = False
   \<and> within_time_window [example_window None] category t 6 = False"
proof (intro conjI)
  show "within_time_window table category t d =
     (\<exists>w \<in> set table.
        win_is_active w \<and> d \<in> set (win_days_of_week w)
        \<and> (category = None \<or> win_student_category w = None
             \<or> win_student_category w = map_option category_value category)
        \<and> win_start_time w \<le> t \<and> t \<le> win_end_time w)"
    by (cases category)
       (auto simp: within_time_window_def get_active_windows_def is_within_time_window_iff)
  show "within_time_window [example_window None] category (mk_time 9 15) 2 = True"
    by (cases category)
       (simp_all add: within_time_window_def get_active_windows_def example_window_def
          mk_time_def)
  show "within_time_window [example_window None] category (mk_time 9 31) 2 = False"
    by (cases category)
       (simp_all add: within_time_window_def get_active_windows_def example_window_def
          mk_time_def)
  show "within_time_window [example_window None] category t 6 = False"
    by (cases category)
       (simp_all add: within_time_window_def get_active_windows_def example_window_def)
qed

section \<open>Soft deletion of holidays\<close>

lemma filter_key_singleton:
  "distinct (map f xs) \<Longrightarrow> x \<in> set xs \<Longrightarrow> filter (\<lambda>y. f y = f x) xs = [x]"
proof (induction xs)
  case Nil
  then show ?case by simp
next
  case (Cons a xs)
  show ?case
  proof (cases "a = x")
    case True
    have "filter (\<lambda>y. f y = f x) xs = []"
      using Cons.prems(1) True by (auto simp: filter_empty_conv image_iff)
    with True show ?thesis by simp
  next
    case False
    with Cons.prems have "x \<in> set xs" by simp
    moreover have "f a \<noteq> f x" using Cons.prems(1) \<open>x \<in> set xs\<close> by (auto simp: image_iff)
    ultimately show ?thesis using Cons by simp
  qed
qed

lemma key_unique:
  "distinct (map f xs) \<Longrightarrow> x \<in> set xs \<Longrightarrow> y \<in> set xs \<Longrightarrow> f y = f x \<Longrightarrow> y = x"
  by (meson distinct_map inj_onD)

lemma map_key_eq:
  assumes "distinct (map f xs)" "x \<in> set xs"
  shows "map (\<lambda>y. if f y = f x then g y else y) xs = map (\<lambda>y. if y = x then g x else y) xs"
proof (rule map_cong[OF refl])
  fix y assume "y \<in> set xs"
  then have "f y = f x \<longleftrightarrow> y = x" using key_unique[OF assms(1,2)] by blast
  then show "(if f y = f x then g y else y) = (if y = x then g x else y)" by simp
qed

text \<open>
  C10: deleting an existing holiday is a soft delete.  \<open>holiday_delete\<close> returns
  \<open>True\<close>, keeps every row and only clears \<open>is_active\<close> of the deleted one; after
  it \<open>get_by_date\<close>, \<open>get_holidays_in_range\<close> (through the set of holiday dates) and
  \<open>get_all_active\<close> no longer report the date, so the statistics treat the date as a
  working day again unless it is a Sunday.  Primary keys and dates are unique, as the
  table declares them.
\<close>

theorem delete_holiday_soft:
  assumes ids: "distinct (map hol_id (db_holidays s))"
    and dates: "distinct (map hol_date (db_holidays s))"
    and h: "h \<in> set (db_holidays s)"
  shows "\<exists>s'. holiday_delete s (hol_id h) = Inr (True, s')
      \<and> db_holidays s' = map (\<lambda>x. if x = h then h\<lparr>hol_is_active := False\<rparr> else x) (db_holidays s)
      \<and> holiday_get_by_date s' (hol_date h) = Inr None
      \<and> hol_date h \<notin> get_holiday_dates_in_range s' a b
      \<and> hol_date h \<notin> hol_date ` set (holiday_get_all_active s' skip limit)
      \<and> is_working_day (get_holiday_dates_in_range s' a b) (hol_date h) = (weekday (hol_date h) \<noteq> 6)"
proof -
  define hs' where "hs' = map (\<lambda>x. if x = h then h\<lparr>hol_is_active := False\<rparr> else x) (db_holidays s)"
  define s' where "s' = s\<lparr>db_holidays := hs'\<rparr>"
  have hs: "db_holidays s' = hs'" by (simp add: s'_def)
  have same: "map (\<lambda>x. if hol_id x = hol_id h then x\<lparr>hol_is_active := False\<rparr> else x) (db_holidays s) = hs'"
    unfolding hs'_def by (rule map_key_eq[OF ids h])
  have del: "holiday_delete s (hol_id h) = Inr (True, s')"
    by (simp add: holiday_delete_def s'_def filter_key_singleton[OF ids h] same)
  have none: "\<not> hol_is_active x" if "x \<in> set hs'" "hol_date x = hol_date h" for x
  proof -
    from that(1) have "x \<in> (\<lambda>y. if y = h then h\<lparr>hol_is_active := False\<rparr> else y) ` set (db_holidays s)"
      unfolding hs'_def by simp
    then obtain y where y: "y \<in> set (db_holidays s)"
      "x = (if y = h then h\<lparr>hol_is_active := False\<rparr> else y)"
      by (rule imageE)
    show ?thesis
    proof (cases "y = h")
      case True
      with y(2) show ?thesis by simp
    next
      case False
      with y(2) have "x = y" by simp
      with key_unique[OF dates h y(1)] that(2) False show ?thesis by simp
    qed
  qed
  have empty: "filter (\<lambda>x. hol_date x = hol_date h \<and> hol_is_active x) hs' = []"
    unfolding filter_empty_conv using none by blast
  have g: "holiday_get_by_date s' (hol_date h) = Inr None"
    unfolding holiday_get_by_date_def hs empty by simp
  have r: "hol_date h \<notin> get_holiday_dates_in_range s' a b"
  proof
    assume "hol_date h \<in> get_holiday_dates_in_range s' a b"
    then obtain x where "x \<in> set hs'" "hol_is_active x" "hol_date x = hol_date h"
      unfolding get_holiday_dates_in_range_def get_holidays_in_range_def hs by auto
    with none show False by blast
  qed
  have al: "hol_date h \<notin> hol_date ` set (holiday_get_all_active s' skip limit)"
  proof
    assume "hol_date h \<in> hol_date ` set (holiday_get_all_active s' skip limit)"
    then obtain x where x: "x \<in> set (holiday_get_all_active s' skip limit)" "hol_date x = hol_date h"
      by auto
    from x(1) have "x \<in> set (rev (sort_key hol_date (filter hol_is_active hs')))"
      unfolding holiday_get_all_active_def hs by (blast dest: in_set_takeD in_set_dropD)
    then have "x \<in> set hs'" "hol_is_active x" by auto
    with none x(2) show False by blast
  qed
  have w: "is_working_day (get_holiday_dates_in_range s' a b) (hol_date h) = (weekday (hol_date h) \<noteq> 6)"
    using r by (simp add: is_working_day_def)
  have hs2: "db_holidays s' = map (\<lambda>x. if x = h then h\<lparr>hol_is_active := False\<rparr> else x) (db_holidays s)"
    by (simp add: hs hs'_def)
  show ?thesis
    by (intro exI[of _ s'] conjI del hs2 g r al w)
qed


theorem delete_holiday_soft_witness:
  "holiday_get_by_date db_one_holiday 739252 = Inr (Some holiday_new_year)
   \<and> (\<exists>s'. holiday_delete db_one_holiday 1 = Inr (True, s')
      \<and> db_holidays s' = [holiday_new_year\<lparr>hol_is_active := False\<rparr>]
      \<and> holiday_get_by_date s' 739252 = Inr None
      \<and> 739252 \<notin> get_holiday_dates_in_range s' 739250 739260
      \<and> is_working_day (get_holiday_dates_in_range s' 739250 739260) 739252)"
proof -
  have a: "distinct (map hol_id (db_holidays db_one_holiday))" by (simp add: db_one_holiday_def empty_db_def)
  have b: "distinct (map hol_date (db_holidays db_one_holiday))" by (simp add: db_one_holiday_def empty_db_def)
  have c: "holiday_new_year \<in> set (db_holidays db_one_holiday)" by (simp add: db_one_holiday_def empty_db_def)
  have i: "hol_id holiday_new_year = 1" and d: "hol_date holiday_new_year = 739252" and act: "hol_is_active holiday_new_year"
    by (simp_all add: holiday_new_year_def)
  have before: "holiday_get_by_date db_one_holiday 739252 = Inr (Some holiday_new_year)"
    by (simp add: holiday_get_by_date_def db_one_holiday_def empty_db_def d act)
  from delete_holiday_soft[OF a b c, of 739250 739260 0 100]
  obtain s' where *: "holiday_delete db_one_holiday (hol_id holiday_new_year) = Inr (True, s')
      \<and> db_holidays s' = map (\<lambda>x. if x = holiday_new_year then holiday_new_year\<lparr>hol_is_active := False\<rparr> else x) (db_holidays db_one_holiday)
      \<and> holiday_get_by_date s' (hol_date holiday_new_year) = Inr None
      \<and> hol_date holiday_new_year \<notin> get_holiday_dates_in_range s' 739250 739260
      \<and> hol_date holiday_new_year \<notin> hol_date ` set (holiday_get_all_active s' 0 100)
      \<and> is_working_day (get_holiday_dates_in_range s' 739250 739260) (hol_date holiday_new_year) = (weekday (hol_date holiday_new_year) \<noteq> 6)" ..
  have "db_holidays db_one_holiday = [holiday_new_year]" by (simp add: db_one_holiday_def empty_db_def)
  with * have "holiday_delete db_one_holiday 1 = Inr (True, s')
      \<and> db_holidays s' = [holiday_new_year\<lparr>hol_is_active := False\<rparr>]
      \<and> holiday_get_by_date s' 739252 = Inr None
      \<and> 739252 \<notin> get_holiday_dates_in_range s' 739250 739260
      \<and> is_working_day (get_holiday_dates_in_range s' 739250 739260) 739252"
    by (simp add: i d weekday_def)
  then have "\<exists>s'. holiday_delete db_one_holiday 1 = Inr (True, s')
      \<and> db_holidays s' = [holiday_new_year\<lparr>hol_is_active := False\<rparr>]
      \<and> holiday_get_by_date s' 739252 = Inr None
      \<and> 739252 \<notin> get_holiday_dates_in_range s' 739250 739260
      \<and> is_working_day (get_holiday_dates_in_range s' 739250 739260) 739252" ..
  with before show ?thesis by (rule conjI)
qed

section \<open>Properties of the attendance statistics\<close>

declare count_working_days.simps [simp del]
declare synthesize_history.simps [simp del]

lemma count_working_days_closed:
  "MINORD \<le> current \<Longrightarrow> end_date < MAXORD \<Longrightarrow>
   count_working_days current end_date H n0 =
     Inr (n0 + int (length (filter (is_working_day H) [current..end_date])))"
proof (induction current end_date H n0 rule: count_working_days.induct)
  case (1 current end_date H n0)
  show ?case
  proof (cases "current \<le> end_date")
    case False
    then show ?thesis by (simp add: count_working_days.simps[of current])
  next
    case True
    with "1.prems" have step: "date_add_days current 1 = Inr (current + 1)"
      by (simp add: date_add_days_def)
    have up: "[current..end_date] = current # [current + 1..end_date]"
      using True by (simp add: upto_rec1)
    from "1.prems" have "MINORD \<le> current + 1" by simp
    from "1.IH"[OF True step this "1.prems"(2)] show ?thesis
      by (simp add: count_working_days.simps[of current] True step up)
  qed
qed

lemma synthesize_history_closed:
  "MINORD < start_date \<Longrightarrow> current \<le> MAXORD \<Longrightarrow>
   synthesize_history current start_date H m today sid acc =
     Inr (acc @ concat (map (history_of_day H m today sid) (rev [start_date..current])))"
proof (induction current start_date H m today sid acc rule: synthesize_history.induct)
  case (1 current start_date H m today sid acc)
  show ?case
  proof (cases "start_date \<le> current")
    case False
    then show ?thesis by (simp add: synthesize_history.simps[of current])
  next
    case True
    with "1.prems" have step: "date_add_days current (- 1) = Inr (current - 1)"
      by (simp add: date_add_days_def)
    have up: "[start_date..current] = [start_date..current - 1] @ [current]"
      using True by (simp add: upto_rec2)
    from "1.prems" have le: "current - 1 \<le> MAXORD" by simp
    from "1.IH"[OF True step "1.prems"(1) le] show ?thesis
      by (simp add: synthesize_history.simps[of current] True step up history_of_day_def
          split: option.split)
  qed
qed

lemma holiday_dates_in_range_iff:
  "d \<in> get_holiday_dates_in_range s a b \<longleftrightarrow>
     a \<le> d \<and> d \<le> b \<and> (\<exists>h \<in> set (db_holidays s). hol_is_active h \<and> hol_date h = d)"
  by (auto simp: get_holiday_dates_in_range_def get_holidays_in_range_def)

lemma length_filter_upto:
  "length (filter P [a..b]) = card {d. a \<le> d \<and> d \<le> b \<and> P d}"
proof -
  have "length (filter P [a..b]) = card ({d. P d} \<inter> set [a..b])"
    by (rule distinct_length_filter) simp
  also have "{d. P d} \<inter> set [a..b] = {d. a \<le> d \<and> d \<le> b \<and> P d}" by auto
  finally show ?thesis .
qed

lemma present_count_eq:
  "length (filter (\<lambda>r. rec_status r = PRESENT) (student_records_in_range s sid a b)) =
   length (filter (\<lambda>r. rec_student_id r = sid \<and> a \<le> rec_attendance_date r
                        \<and> rec_attendance_date r \<le> b \<and> rec_status r = PRESENT) (db_records s))"
  by (simp add: student_records_in_range_def rev_filter[symmetric] filter_sort conj_ac)

lemma week_has_six_working_days:
  "card {d. s \<le> d \<and> d \<le> s + 6 \<and> weekday d \<noteq> 6} = 6"
proof -
  define d0 where "d0 = s + (- s) mod 7"
  have A: "weekday d = 6 \<longleftrightarrow> d mod 7 = 0" for d
    unfolding weekday_def by presburger
  have B: "d0 mod 7 = 0" unfolding d0_def by presburger
  have C: "s \<le> d0" "d0 \<le> s + 6" unfolding d0_def by simp_all
  have D: "d = d0" if "s \<le> d" "d \<le> s + 6" "d mod 7 = 0" for d
    using that B C by presburger
  have "{d. s \<le> d \<and> d \<le> s + 6 \<and> weekday d \<noteq> 6} = {s..s + 6} - {d0}"
  proof (rule set_eqI)
    fix d
    show "d \<in> {d. s \<le> d \<and> d \<le> s + 6 \<and> weekday d \<noteq> 6} \<longleftrightarrow> d \<in> {s..s + 6} - {d0}"
    proof (cases "d = d0")
      case True
      with A[of d0] B show ?thesis by simp
    next
      case False
      with A[of d] D[of d] show ?thesis by auto
    qed
  qed
  moreover have "d0 \<in> {s..s + 6}" using C by simp
  ultimately show ?thesis by (simp add: card_Diff_singleton)
qed

lemma pow2_powr: "pow2 e = 2 powr (of_int e)"
proof (cases "0 \<le> e")
  case True
  then show ?thesis by (simp add: pow2_def powr_realpow[symmetric])
next
  case False
  then have "(2::real) powr (of_int e) = 1 / 2 powr (of_int (- e))"
    by (simp add: powr_minus_divide)
  also have "\<dots> = 1 / 2 ^ nat (- e)" using False by (simp add: powr_realpow[symmetric])
  finally show ?thesis using False by (simp add: pow2_def)
qed

lemma pow2_pos: "0 < pow2 e"
  by (simp add: pow2_powr)

lemma pow2_add: "pow2 (a + b) = pow2 a * pow2 b"
  by (simp add: pow2_powr powr_add)

lemma binade_eq:
  assumes "pow2 n \<le> \<bar>x\<bar>" "\<bar>x\<bar> < pow2 (n + 1)"
  shows "\<lfloor>log 2 \<bar>x\<bar>\<rfloor> = n"
proof -
  from assms(1) pow2_pos[of n] have pos: "0 < \<bar>x\<bar>" by linarith
  have "of_int n \<le> log 2 \<bar>x\<bar>"
    using assms(1) pos by (simp add: pow2_powr le_log_iff)
  moreover have "log 2 \<bar>x\<bar> < of_int n + 1"
    using assms(2) pos by (simp add: pow2_powr log_less_iff add.commute)
  ultimately show ?thesis by linarith
qed

lemma round_double_eval:
  assumes "pow2 n \<le> \<bar>x\<bar>" "\<bar>x\<bar> < pow2 (n + 1)"
  shows "round_double x = of_int (round_half_even (x / pow2 (n - 52))) * pow2 (n - 52)"
proof -
  from assms(1) pow2_pos[of n] have "x \<noteq> 0" by auto
  then show ?thesis by (simp add: round_double_def binade_eq[OF assms] Let_def)
qed

lemma round_half_even_near: "\<bar>of_int (round_half_even m) - m\<bar> \<le> 1 / 2"
proof -
  define f where "f = \<lfloor>m\<rfloor>"
  have f: "of_int f \<le> m" "m < of_int f + 1" unfolding f_def by linarith+
  have "round_half_even m =
     (if m - of_int f < 1 / 2 then f else if 1 / 2 < m - of_int f then f + 1
      else if even f then f else f + 1)"
    by (simp add: round_half_even_def Let_def f_def)
  with f show ?thesis by (auto simp: abs_if)
qed

lemma round_half_even_int: "round_half_even (of_int k) = k"
  by (simp add: round_half_even_def)

lemma round_double_rel_error: "\<bar>round_double x - x\<bar> \<le> \<bar>x\<bar> / 2 ^ 53"
proof (cases "x = 0")
  case True
  then show ?thesis by (simp add: round_double_def)
next
  case False
  define n where "n = \<lfloor>log 2 \<bar>x\<bar>\<rfloor>"
  define e where "e = n - 52"
  from False have pos: "0 < \<bar>x\<bar>" by simp
  have "of_int n \<le> log 2 \<bar>x\<bar>" unfolding n_def by linarith
  then have low: "pow2 n \<le> \<bar>x\<bar>" using pos by (simp add: pow2_powr le_log_iff)
  have rd: "round_double x = of_int (round_half_even (x / pow2 e)) * pow2 e"
    using False by (simp add: round_double_def Let_def n_def e_def)
  have "round_double x - x = (of_int (round_half_even (x / pow2 e)) - x / pow2 e) * pow2 e"
    using pow2_pos[of e] by (simp add: rd field_simps)
  then have "\<bar>round_double x - x\<bar> = \<bar>of_int (round_half_even (x / pow2 e)) - x / pow2 e\<bar> * pow2 e"
    using pow2_pos[of e] by (simp add: abs_mult)
  also have "\<dots> \<le> 1 / 2 * pow2 e"
    using round_half_even_near[of "x / pow2 e"] pow2_pos[of e] by (intro mult_right_mono) simp_all
  also have "1 / 2 * pow2 e = pow2 n / 2 ^ 53"
  proof -
    have "pow2 n = pow2 e * pow2 52" unfolding e_def pow2_add[symmetric] by simp
    then show ?thesis by (simp add: pow2_def)
  qed
  also have "\<dots> \<le> \<bar>x\<bar> / 2 ^ 53" using low by (simp add: divide_right_mono)
  finally show ?thesis .
qed


lemma round_double_0: "round_double 0 = 0"
  by (simp add: round_double_def)

lemma py_round2_0: "py_round2 0 = 0"
  by (simp add: py_round2_def round_half_even_def round_double_0)

lemma true_div_4_5: "py_true_div 4 5 = 7205759403792794 / 2 ^ 53"
  unfolding py_true_div_def
  by (subst round_double_eval[where n = "- 1"])
     (simp_all add: pow2_def round_half_even_def Let_def)

lemma mul_4_5_100: "float_mul (7205759403792794 / 2 ^ 53) 100 = 80"
  unfolding float_mul_def
  by (subst round_double_eval[where n = 6])
     (simp_all add: pow2_def round_half_even_def Let_def)

lemma round_double_80: "round_double 80 = 80"
  by (subst round_double_eval[where n = 6])
     (simp_all add: pow2_def round_half_even_def Let_def)

lemma py_round2_80: "py_round2 80 = 80"
  by (simp add: py_round2_def round_half_even_def round_double_80)

lemma percentage_4_of_5: "py_round2 (float_mul (py_true_div 4 5) 100) = 80"
  by (simp only: true_div_4_5 mul_4_5_100 py_round2_80)

lemma true_div_23_160: "py_true_div 23 160 = 5179139571476070 / 2 ^ 55"
  unfolding py_true_div_def
  by (subst round_double_eval[where n = "- 3"])
     (simp_all add: pow2_def round_half_even_def Let_def)

lemma mul_23_160_100: "float_mul (5179139571476070 / 2 ^ 55) 100 = 8092405580431359 / 2 ^ 49"
  unfolding float_mul_def
  by (subst round_double_eval[where n = 3])
     (simp_all add: pow2_def round_half_even_def Let_def)

lemma percentage_23_of_160:
  "py_round2 (float_mul (py_true_div 23 160) 100) = round_double (1437 / 100)"
  unfolding true_div_23_160 mul_23_160_100
  by (simp add: py_round2_def round_half_even_def Let_def)

lemma round_double_1437: "round_double (1437 / 100) = 8089590830664253 / 2 ^ 49"
  by (subst round_double_eval[where n = 3])
     (simp_all add: pow2_def round_half_even_def Let_def)


lemma py_round2_two_decimals:
  "\<exists>k. py_round2 x = round_double (of_int k / 100) \<and> \<bar>of_int k / 100 - x\<bar> \<le> 1 / 200"
proof -
  define k where "k = round_half_even (x * 100)"
  have "\<bar>of_int k - x * 100\<bar> \<le> 1 / 2" unfolding k_def by (rule round_half_even_near)
  moreover have "of_int k / 100 - x = (of_int k - x * 100) / 100" by (simp add: field_simps)
  ultimately have "\<bar>of_int k / 100 - x\<bar> \<le> 1 / 200" by (simp only: abs_divide abs_numeral)
  moreover have "py_round2 x = round_double (of_int k / 100)" by (simp add: py_round2_def k_def)
  ultimately show ?thesis by blast
qed

lemma percentage_error:
  assumes "0 \<le> p" "0 < w"
  shows "\<bar>float_mul (py_true_div p w) 100 - of_int p / of_int w * 100\<bar>
           \<le> (of_int p / of_int w * 100) / 2 ^ 51"
proof -
  define y :: real where "y = of_int p / of_int w"
  define q where "q = round_double y"
  define x where "x = round_double (q * 100)"
  from assms have y0: "0 \<le> y" by (simp add: y_def)
  have e1: "\<bar>q - y\<bar> \<le> y / 2 ^ 53"
    using round_double_rel_error[of y] y0 by (simp add: q_def)
  have e2: "\<bar>x - q * 100\<bar> \<le> \<bar>q * 100\<bar> / 2 ^ 53"
    unfolding x_def by (rule round_double_rel_error)
  from e1 y0 have qle: "\<bar>q\<bar> \<le> y + y / 2 ^ 53" by linarith
  then have "\<bar>q * 100\<bar> \<le> (y + y / 2 ^ 53) * 100" by (simp add: abs_mult)
  then have "\<bar>q * 100\<bar> / 2 ^ 53 \<le> (y + y / 2 ^ 53) * 100 / 2 ^ 53"
    by (simp add: divide_right_mono)
  with e2 have e2': "\<bar>x - q * 100\<bar> \<le> (y + y / 2 ^ 53) * 100 / 2 ^ 53" by linarith
  have "x - y * 100 = (x - q * 100) + (q - y) * 100" by (simp add: algebra_simps)
  then have "\<bar>x - y * 100\<bar> \<le> \<bar>x - q * 100\<bar> + \<bar>(q - y) * 100\<bar>"
    by (simp only: abs_triangle_ineq)
  moreover have "\<bar>(q - y) * 100\<bar> = \<bar>q - y\<bar> * 100"
    by (simp only: abs_mult abs_numeral)
  ultimately have "\<bar>x - y * 100\<bar> \<le> \<bar>x - q * 100\<bar> + \<bar>q - y\<bar> * 100"
    by (simp only:)
  also have "\<dots> \<le> (y + y / 2 ^ 53) * 100 / 2 ^ 53 + y / 2 ^ 53 * 100"
  proof (rule add_mono[OF e2'])
    from e1 show "\<bar>q - y\<bar> * 100 \<le> y / 2 ^ 53 * 100" by (rule mult_right_mono) simp
  qed
  also have "\<dots> \<le> y * 100 / 2 ^ 51"
    using y0 by (simp add: field_simps)
  finally show ?thesis by (simp add: x_def q_def y_def float_mul_def py_true_div_def)
qed

lemma working_days_card:
  "int (length (filter (is_working_day (get_holiday_dates_in_range s a b)) [a..b])) =
   int (card {d. a \<le> d \<and> d \<le> b \<and> weekday d \<noteq> 6
              \<and> \<not> (\<exists>h \<in> set (db_holidays s). hol_is_active h \<and> hol_date h = d)})"
proof -
  have "{d. a \<le> d \<and> d \<le> b \<and> is_working_day (get_holiday_dates_in_range s a b) d} =
        {d. a \<le> d \<and> d \<le> b \<and> weekday d \<noteq> 6
              \<and> \<not> (\<exists>h \<in> set (db_holidays s). hol_is_active h \<and> hol_date h = d)}"
    by (auto simp: is_working_day_def holiday_dates_in_range_iff)
  then show ?thesis by (simp add: length_filter_upto)
qed

lemma stats_returns:
  assumes "MINORD < start_date" "end_date < MAXORD"
  shows "get_student_attendance_stats s configured today sid (Some start_date) (Some end_date) =
    Inr \<lparr> st_start_date = start_date, st_end_date = end_date,
          st_total_working_days =
            int (length (filter (is_working_day (get_holiday_dates_in_range s start_date end_date))
                    [start_date..end_date])),
          st_holidays_count = card (get_holiday_dates_in_range s start_date end_date),
          st_present_days =
            int (length (filter (\<lambda>r. rec_status r = PRESENT)
                   (student_records_in_range s sid start_date end_date))),
          st_absent_days =
            max 0 (int (length (filter (is_working_day (get_holiday_dates_in_range s start_date end_date))
                    [start_date..end_date]))
                   - int (length (filter (\<lambda>r. rec_status r = PRESENT)
                   (student_records_in_range s sid start_date end_date)))),
          st_attendance_percentage =
            py_round2 (if length (filter (is_working_day (get_holiday_dates_in_range s start_date end_date))
                    [start_date..end_date]) = 0 then 0
               else float_mul
                 (py_true_div
                    (int (length (filter (\<lambda>r. rec_status r = PRESENT)
                       (student_records_in_range s sid start_date end_date))))
                    (int (length (filter (is_working_day (get_holiday_dates_in_range s start_date end_date))
                       [start_date..end_date])))) 100),
          st_records =
            concat (map (history_of_day (get_holiday_dates_in_range s start_date end_date)
                     (records_by_date (student_records_in_range s sid start_date end_date)) today sid)
                 (rev [start_date..end_date])),
          st_holidays = get_holidays_in_range s start_date end_date \<rparr>"
proof -
  from assms have a: "MINORD \<le> start_date" and b: "end_date \<le> MAXORD" by simp_all
  show ?thesis
    unfolding get_student_attendance_stats_def Let_def
    by (simp add: count_working_days_closed[OF a assms(2)]
        synthesize_history_closed[OF assms(1) b] max_def)
qed

lemma week_with_one_holiday:
  assumes hol: "{d. s \<le> d \<and> d \<le> s + 6 \<and> P d} = {hday}" and wd: "weekday hday \<noteq> 6"
  shows "card {d. s \<le> d \<and> d \<le> s + 6 \<and> weekday d \<noteq> 6 \<and> \<not> P d} = 5"
proof -
  from hol have "hday \<in> {d. s \<le> d \<and> d \<le> s + 6 \<and> P d}" by simp
  then have range: "s \<le> hday" "hday \<le> s + 6" by simp_all
  have only: "P d \<longleftrightarrow> d = hday" if "s \<le> d" "d \<le> s + 6" for d
    using hol that by blast
  have "{d. s \<le> d \<and> d \<le> s + 6 \<and> weekday d \<noteq> 6 \<and> \<not> P d} =
        {d. s \<le> d \<and> d \<le> s + 6 \<and> weekday d \<noteq> 6} - {hday}"
    using only by auto
  moreover have "hday \<in> {d. s \<le> d \<and> d \<le> s + 6 \<and> weekday d \<noteq> 6}"
    using range wd by simp
  ultimately show ?thesis
    using week_has_six_working_days[of s] by (simp add: card_Diff_singleton)
qed

text \<open>
  C6: for a range \<open>[start_date, end_date]\<close> inside the calendar the statistics
  return; \<open>total_working_days\<close> is the number of dates of the range that are not a
  Sunday and not the date of an active holiday, \<open>present_days\<close> the number of the
  student's \<open>PRESENT\<close> rows in the range, \<open>absent_days\<close> is
  \<open>max 0 (working - present)\<close>, and the percentage is Python's
  \<open>round(present / working * 100, 2)\<close> on doubles (0 without working days): it is the
  double nearest to a number \<open>k / 100\<close> with two decimals, and \<open>k / 100\<close> is within
  0.005 of the exact percentage up to the relative error \<open>2\<^sup>-\<^sup>5\<^sup>1\<close> of the two float
  operations.  A range of seven days with one holiday that is not on a Sunday and four
  \<open>PRESENT\<close> rows gives 5 working days, 4 present, 1 absent and exactly 80 percent.
\<close>

theorem attendance_stats_correct:
  assumes "MINORD < start_date" and "end_date < MAXORD"
  shows "\<exists>st. get_student_attendance_stats s configured today sid (Some start_date) (Some end_date)
              = Inr st
     \<and> st_total_working_days st =
         int (card {d. start_date \<le> d \<and> d \<le> end_date \<and> weekday d \<noteq> 6
                       \<and> \<not> (\<exists>h \<in> set (db_holidays s). hol_is_active h \<and> hol_date h = d)})
     \<and> st_present_days st =
         int (length (filter (\<lambda>r. rec_student_id r = sid \<and> start_date \<le> rec_attendance_date r
                \<and> rec_attendance_date r \<le> end_date \<and> rec_status r = PRESENT) (db_records s)))
     \<and> st_absent_days st = max 0 (st_total_working_days st - st_present_days st)
     \<and> st_attendance_percentage st =
         py_round2 (if st_total_working_days st = 0 then 0
                    else float_mul (py_true_div (st_present_days st) (st_total_working_days st)) 100)
     \<and> (\<exists>k. st_attendance_percentage st = round_double (of_int k / 100)
           \<and> \<bar>real_of_int k / 100 -
               (if st_total_working_days st = 0 then 0
                else real_of_int (st_present_days st) / real_of_int (st_total_working_days st) * 100)\<bar>
             \<le> 1 / 200 +
                (if st_total_working_days st = 0 then 0
                 else real_of_int (st_present_days st) / real_of_int (st_total_working_days st) * 100) / 2 ^ 51)
     \<and> (end_date = start_date + 6
         \<and> {d. start_date \<le> d \<and> d \<le> start_date + 6
                \<and> (\<exists>h \<in> set (db_holidays s). hol_is_active h \<and> hol_date h = d)} = {hday}
         \<and> weekday hday \<noteq> 6
         \<and> length (filter (\<lambda>r. rec_student_id r = sid \<and> start_date \<le> rec_attendance_date r
                \<and> rec_attendance_date r \<le> end_date \<and> rec_status r = PRESENT) (db_records s)) = 4
         \<longrightarrow> st_total_working_days st = 5 \<and> st_present_days st = 4 \<and> st_absent_days st = 1
             \<and> st_attendance_percentage st = 80)"
proof -
  define W where "W = length (filter (is_working_day (get_holiday_dates_in_range s start_date end_date))
                    [start_date..end_date])"
  define Pn where "Pn = length (filter (\<lambda>r. rec_status r = PRESENT)
                   (student_records_in_range s sid start_date end_date))"
  define st where "st = \<lparr> st_start_date = start_date, st_end_date = end_date,
          st_total_working_days = int W,
          st_holidays_count = card (get_holiday_dates_in_range s start_date end_date),
          st_present_days = int Pn,
          st_absent_days = max 0 (int W - int Pn),
          st_attendance_percentage =
            py_round2 (if W = 0 then 0 else float_mul (py_true_div (int Pn) (int W)) 100),
          st_records =
            concat (map (history_of_day (get_holiday_dates_in_range s start_date end_date)
                     (records_by_date (student_records_in_range s sid start_date end_date)) today sid)
                 (rev [start_date..end_date])),
          st_holidays = get_holidays_in_range s start_date end_date \<rparr>"
  have ret: "get_student_attendance_stats s configured today sid (Some start_date) (Some end_date)
              = Inr st"
    unfolding st_def W_def Pn_def by (rule stats_returns[OF assms])
  have tw: "st_total_working_days st = int W" and pd: "st_present_days st = int Pn"
    and ad: "st_absent_days st = max 0 (int W - int Pn)"
    and pc: "st_attendance_percentage st =
               py_round2 (if W = 0 then 0 else float_mul (py_true_div (int Pn) (int W)) 100)"
    by (simp_all add: st_def)
  have Wc: "int W = int (card {d. start_date \<le> d \<and> d \<le> end_date \<and> weekday d \<noteq> 6
                       \<and> \<not> (\<exists>h \<in> set (db_holidays s). hol_is_active h \<and> hol_date h = d)})"
    unfolding W_def by (rule working_days_card)
  have Pc: "Pn = length (filter (\<lambda>r. rec_student_id r = sid \<and> start_date \<le> rec_attendance_date r
                \<and> rec_attendance_date r \<le> end_date \<and> rec_status r = PRESENT) (db_records s))"
    unfolding Pn_def by (rule present_count_eq)
  have c1: "st_total_working_days st =
         int (card {d. start_date \<le> d \<and> d \<le> end_date \<and> weekday d \<noteq> 6
                       \<and> \<not> (\<exists>h \<in> set (db_holidays s). hol_is_active h \<and> hol_date h = d)})"
    using tw Wc by simp
  have c2: "st_present_days st =
         int (length (filter (\<lambda>r. rec_student_id r = sid \<and> start_date \<le> rec_attendance_date r
                \<and> rec_attendance_date r \<le> end_date \<and> rec_status r = PRESENT) (db_records s)))"
    using pd Pc by simp
  have c3: "st_absent_days st = max 0 (st_total_working_days st - st_present_days st)"
    by (simp add: tw pd ad)
  have c4: "st_attendance_percentage st =
         py_round2 (if st_total_working_days st = 0 then 0
                    else float_mul (py_true_div (st_present_days st) (st_total_working_days st)) 100)"
    by (simp add: tw pd pc)
  have c5: "\<exists>k. st_attendance_percentage st = round_double (of_int k / 100)
           \<and> \<bar>real_of_int k / 100 -
               (if st_total_working_days st = 0 then 0
                else real_of_int (st_present_days st) / real_of_int (st_total_working_days st) * 100)\<bar>
             \<le> 1 / 200 +
                (if st_total_working_days st = 0 then 0
                 else real_of_int (st_present_days st) / real_of_int (st_total_working_days st) * 100) / 2 ^ 51"
  proof -
    define x where "x = (if W = 0 then 0 else float_mul (py_true_div (int Pn) (int W)) 100)"
    define exact :: real where "exact = (if W = 0 then 0 else of_int (int Pn) / of_int (int W) * 100)"
    have xe: "\<bar>x - exact\<bar> \<le> exact / 2 ^ 51"
    proof (cases "W = 0")
      case True
      then show ?thesis by (simp add: x_def exact_def)
    next
      case False
      then have "0 < int W" by simp
      from percentage_error[OF _ this, of "int Pn"] False show ?thesis
        by (simp add: x_def exact_def)
    qed
    from py_round2_two_decimals[of x] obtain k where
      k: "py_round2 x = round_double (of_int k / 100)" "\<bar>of_int k / 100 - x\<bar> \<le> 1 / 200"
      by blast
    have "of_int k / 100 - exact = (of_int k / 100 - x) + (x - exact)" by simp
    then have "\<bar>of_int k / 100 - exact\<bar> \<le> \<bar>of_int k / 100 - x\<bar> + \<bar>x - exact\<bar>"
      by (simp only: abs_triangle_ineq)
    also have "\<dots> \<le> 1 / 200 + exact / 2 ^ 51" by (rule add_mono[OF k(2) xe])
    finally have "\<bar>of_int k / 100 - exact\<bar> \<le> 1 / 200 + exact / 2 ^ 51" .
    moreover have "st_attendance_percentage st = round_double (of_int k / 100)"
      using k(1) by (simp add: pc x_def)
    moreover have "exact = (if st_total_working_days st = 0 then 0
                else real_of_int (st_present_days st) / real_of_int (st_total_working_days st) * 100)"
      by (simp add: exact_def tw pd)
    ultimately show ?thesis by auto
  qed
  have c6: "end_date = start_date + 6
         \<and> {d. start_date \<le> d \<and> d \<le> start_date + 6
                \<and> (\<exists>h \<in> set (db_holidays s). hol_is_active h \<and> hol_date h = d)} = {hday}
         \<and> weekday hday \<noteq> 6
         \<and> length (filter (\<lambda>r. rec_student_id r = sid \<and> start_date \<le> rec_attendance_date r
                \<and> rec_attendance_date r \<le> end_date \<and> rec_status r = PRESENT) (db_records s)) = 4
         \<longrightarrow> st_total_working_days st = 5 \<and> st_present_days st = 4 \<and> st_absent_days st = 1
             \<and> st_attendance_percentage st = 80"
  proof
    assume ex: "end_date = start_date + 6
         \<and> {d. start_date \<le> d \<and> d \<le> start_date + 6
                \<and> (\<exists>h \<in> set (db_holidays s). hol_is_active h \<and> hol_date h = d)} = {hday}
         \<and> weekday hday \<noteq> 6
         \<and> length (filter (\<lambda>r. rec_student_id r = sid \<and> start_date \<le> rec_attendance_date r
                \<and> rec_attendance_date r \<le> end_date \<and> rec_status r = PRESENT) (db_records s)) = 4"
    from ex have e: "end_date = start_date + 6" by simp
    from ex have "card {d. start_date \<le> d \<and> d \<le> start_date + 6 \<and> weekday d \<noteq> 6
                       \<and> \<not> (\<exists>h \<in> set (db_holidays s). hol_is_active h \<and> hol_date h = d)} = 5"
      by (intro week_with_one_holiday[where hday = hday]) simp_all
    with Wc e have W5: "W = 5" by simp
    from ex[THEN conjunct2, THEN conjunct2, THEN conjunct2] Pc have P4: "Pn = 4"
      by (simp only:)
    have "st_attendance_percentage st = py_round2 (float_mul (py_true_div 4 5) 100)"
      by (simp add: pc W5 P4)
    then have "st_attendance_percentage st = 80" by (simp only: percentage_4_of_5)
    then show "st_total_working_days st = 5 \<and> st_present_days st = 4 \<and> st_absent_days st = 1
             \<and> st_attendance_percentage st = 80"
      by (simp add: tw pd ad W5 P4)
  qed
  show ?thesis by (rule exI[of _ st]) (intro conjI ret c1 c2 c3 c4 c5 c6)
qed

theorem attendance_stats_correct_witness:
  "\<exists>st. get_student_attendance_stats db_example_week (739068, 739432) 739256 7
            (Some 739250) (Some 739256) = Inr st
     \<and> st_total_working_days st = 5 \<and> st_present_days st = 4 \<and> st_absent_days st = 1
     \<and> st_attendance_percentage st = 80"
proof -
  have b1: "MINORD < 739250" and b2: "739256 < MAXORD" by (simp_all add: MINORD_def MAXORD_def)
  have hs: "db_holidays db_example_week = [holiday_new_year]"
    and rs: "db_records db_example_week =
       [present_record 1 7 739250, present_record 2 7 739251,
        present_record 3 7 739253, present_record 4 7 739254]"
    by (simp_all add: db_example_week_def db_one_holiday_def empty_db_def)
  have h1: "{d. 739250 \<le> d \<and> d \<le> 739250 + 6
                \<and> (\<exists>h \<in> set (db_holidays db_example_week). hol_is_active h \<and> hol_date h = d)}
            = {739252}"
    unfolding hs by (auto simp: holiday_new_year_def)
  have h2: "weekday 739252 \<noteq> 6" by (simp add: weekday_def)
  have h3: "length (filter (\<lambda>r. rec_student_id r = 7 \<and> 739250 \<le> rec_attendance_date r
                \<and> rec_attendance_date r \<le> 739256 \<and> rec_status r = PRESENT)
              (db_records db_example_week)) = 4"
    unfolding rs by (simp add: present_record_def)
  from attendance_stats_correct[OF b1 b2, of db_example_week "(739068, 739432)" 739256 7 739252]
  obtain st where st: "get_student_attendance_stats db_example_week (739068, 739432) 739256 7
            (Some 739250) (Some 739256) = Inr st"
    and ex: "739256 = (739250::int) + 6
         \<and> {d. 739250 \<le> d \<and> d \<le> 739250 + 6
                \<and> (\<exists>h \<in> set (db_holidays db_example_week). hol_is_active h \<and> hol_date h = d)}
            = {739252}
         \<and> weekday 739252 \<noteq> 6
         \<and> length (filter (\<lambda>r. rec_student_id r = 7 \<and> 739250 \<le> rec_attendance_date r
                \<and> rec_attendance_date r \<le> 739256 \<and> rec_status r = PRESENT)
              (db_records db_example_week)) = 4
         \<longrightarrow> st_total_working_days st = 5 \<and> st_present_days st = 4 \<and> st_absent_days st = 1
             \<and> st_attendance_percentage st = 80"
    by (elim exE conjE)
  have "739256 = (739250::int) + 6" by simp
  with ex h1 h2 h3 have "st_total_working_days st = 5 \<and> st_present_days st = 4
     \<and> st_absent_days st = 1 \<and> st_attendance_percentage st = 80"
    by (elim impE) (intro conjI, assumption+)
  with st show ?thesis by (intro exI[of _ st] conjI) simp_all
qed

section \<open>Properties of the synthesized history\<close>

lemma fold_by_date_Some:
  "fold (\<lambda>r m. m(rec_attendance_date r \<mapsto> r)) rs m0 d = Some r \<Longrightarrow>
   (r \<in> set rs \<and> rec_attendance_date r = d) \<or> m0 d = Some r"
proof (induction rs arbitrary: m0)
  case Nil
  then show ?case by simp
next
  case (Cons a rs)
  from Cons.prems have "fold (\<lambda>r m. m(rec_attendance_date r \<mapsto> r)) rs
                          (m0(rec_attendance_date a \<mapsto> a)) d = Some r"
    by (simp only: fold_simps o_apply)
  from Cons.IH[of "m0(rec_attendance_date a \<mapsto> a)", OF this] show ?case
    by (auto split: if_splits)
qed

lemma fold_by_date_dom:
  "(\<exists>r \<in> set rs. rec_attendance_date r = d) \<or> m0 d \<noteq> None \<Longrightarrow>
   fold (\<lambda>r m. m(rec_attendance_date r \<mapsto> r)) rs m0 d \<noteq> None"
proof (induction rs arbitrary: m0)
  case Nil
  then show ?case by simp
next
  case (Cons a rs)
  have "(\<exists>r \<in> set rs. rec_attendance_date r = d) \<or> (m0(rec_attendance_date a \<mapsto> a)) d \<noteq> None"
    using Cons.prems by auto
  from Cons.IH[of "m0(rec_attendance_date a \<mapsto> a)", OF this]
  have "fold (\<lambda>r m. m(rec_attendance_date r \<mapsto> r)) rs
          (m0(rec_attendance_date a \<mapsto> a)) d \<noteq> None" .
  moreover have "fold (\<lambda>r m. m(rec_attendance_date r \<mapsto> r)) (a # rs) m0 =
     fold (\<lambda>r m. m(rec_attendance_date r \<mapsto> r)) rs (m0(rec_attendance_date a \<mapsto> a))"
    by (simp only: fold_simps o_apply)
  ultimately show ?case by (simp only: not_False_eq_True)
qed

lemma records_by_date_Some:
  "records_by_date rs d = Some r \<Longrightarrow> r \<in> set rs \<and> rec_attendance_date r = d"
  unfolding records_by_date_def by (drule fold_by_date_Some) simp

lemma records_by_date_None:
  "records_by_date rs d = None \<Longrightarrow> r \<in> set rs \<Longrightarrow> rec_attendance_date r \<noteq> d"
  unfolding records_by_date_def using fold_by_date_dom[of rs d Map.empty] by blast

lemma set_student_records_in_range:
  "set (student_records_in_range s sid a b) =
     {r \<in> set (db_records s). rec_student_id r = sid \<and> a \<le> rec_attendance_date r
        \<and> rec_attendance_date r \<le> b}"
  by (auto simp: student_records_in_range_def)

lemma history_of_day_dates:
  assumes "\<And>d r. m d = Some r \<Longrightarrow> rec_attendance_date r = d"
    and "e \<in> set (history_of_day H m today sid d)"
  shows "entry_date e = d"
  using assms by (auto simp: history_of_day_def split: if_splits option.splits)

lemma filter_history_concat:
  assumes key: "\<And>d r. m d = Some r \<Longrightarrow> rec_attendance_date r = d" and "distinct ds"
  shows "filter (\<lambda>e. entry_date e = d) (concat (map (history_of_day H m today sid) ds)) =
         (if d \<in> set ds then history_of_day H m today sid d else [])"
  using \<open>distinct ds\<close>
proof (induction ds)
  case Nil
  then show ?case by simp
next
  case (Cons a ds)
  have all: "\<forall>e \<in> set (history_of_day H m today sid a). entry_date e = a"
    using history_of_day_dates[OF key] by blast
  have fa: "filter (\<lambda>e. entry_date e = d) (history_of_day H m today sid a) =
            (if a = d then history_of_day H m today sid a else [])"
  proof (cases "a = d")
    case True
    with all show ?thesis by (simp add: filter_id_conv)
  next
    case False
    with all show ?thesis by (simp add: filter_empty_conv)
  qed
  from Cons show ?case by (auto simp: fa)
qed

text \<open>
  C7: for a range inside the calendar the statistics return a history in which every
  working day of the range up to today has exactly one entry; on a working day for which
  the student has a row the entry is such a row and no virtual entry; and every virtual
  entry (\<open>id = None\<close>, \<open>ABSENT\<close>) is for a day of the range that is not after today,
  not a Sunday, not the date of an active holiday, and for which the student has no row.
\<close>

theorem history_synthesis_correct:
  assumes "MINORD < start_date" and "end_date < MAXORD"
  shows "\<exists>st. get_student_attendance_stats s configured today sid (Some start_date) (Some end_date)
              = Inr st
     \<and> (\<forall>d. start_date \<le> d \<and> d \<le> end_date \<and> d \<le> today \<and> weekday d \<noteq> 6
            \<and> \<not> (\<exists>h \<in> set (db_holidays s). hol_is_active h \<and> hol_date h = d)
          \<longrightarrow> length (filter (\<lambda>e. entry_date e = d) (st_records st)) = 1)
     \<and> (\<forall>d r. start_date \<le> d \<and> d \<le> end_date \<and> weekday d \<noteq> 6
            \<and> \<not> (\<exists>h \<in> set (db_holidays s). hol_is_active h \<and> hol_date h = d)
            \<and> r \<in> set (db_records s) \<and> rec_student_id r = sid \<and> rec_attendance_date r = d
          \<longrightarrow> (\<exists>r' \<in> set (db_records s). rec_student_id r' = sid \<and> rec_attendance_date r' = d
                \<and> filter (\<lambda>e. entry_date e = d) (st_records st) = [RealRecord r']))
     \<and> (\<forall>e \<in> set (st_records st). is_virtual e
          \<longrightarrow> start_date \<le> entry_date e \<and> entry_date e \<le> end_date
              \<and> entry_date e \<le> today \<and> weekday (entry_date e) \<noteq> 6
              \<and> \<not> (\<exists>h \<in> set (db_holidays s). hol_is_active h \<and> hol_date h = entry_date e)
              \<and> \<not> (\<exists>r \<in> set (db_records s). rec_student_id r = sid
                       \<and> rec_attendance_date r = entry_date e))"
proof -
  define H where "H = get_holiday_dates_in_range s start_date end_date"
  define rs where "rs = student_records_in_range s sid start_date end_date"
  define m where "m = records_by_date rs"
  define hist where "hist = concat (map (history_of_day H m today sid) (rev [start_date..end_date]))"
  obtain st where ret: "get_student_attendance_stats s configured today sid (Some start_date)
      (Some end_date) = Inr st" and recs: "st_records st = hist"
    using stats_returns[OF assms, of s configured today sid]
    unfolding hist_def H_def rs_def m_def by simp
  have key: "rec_attendance_date r = d" if "m d = Some r" for d r
    using records_by_date_Some[of rs d r] that unfolding m_def by simp
  have inrs: "r \<in> set (db_records s) \<and> rec_student_id r = sid" if "m d = Some r" for d r
    using records_by_date_Some[of rs d r] that
    unfolding m_def rs_def set_student_records_in_range by simp
  have day: "filter (\<lambda>e. entry_date e = d) hist =
        (if start_date \<le> d \<and> d \<le> end_date then history_of_day H m today sid d else [])" for d
    unfolding hist_def using filter_history_concat[of m "rev [start_date..end_date]" d H today sid] key
    by simp
  have wd: "is_working_day H d \<longleftrightarrow> weekday d \<noteq> 6
      \<and> \<not> (\<exists>h \<in> set (db_holidays s). hol_is_active h \<and> hol_date h = d)"
    if "start_date \<le> d" "d \<le> end_date" for d
    using that unfolding H_def is_working_day_def holiday_dates_in_range_iff by simp
  have a: "\<forall>d. start_date \<le> d \<and> d \<le> end_date \<and> d \<le> today \<and> weekday d \<noteq> 6
            \<and> \<not> (\<exists>h \<in> set (db_holidays s). hol_is_active h \<and> hol_date h = d)
          \<longrightarrow> length (filter (\<lambda>e. entry_date e = d) (st_records st)) = 1"
  proof (intro allI impI)
    fix d
    assume d: "start_date \<le> d \<and> d \<le> end_date \<and> d \<le> today \<and> weekday d \<noteq> 6
            \<and> \<not> (\<exists>h \<in> set (db_holidays s). hol_is_active h \<and> hol_date h = d)"
    then have "is_working_day H d" using wd[of d] by simp
    with d show "length (filter (\<lambda>e. entry_date e = d) (st_records st)) = 1"
      unfolding recs day by (simp add: history_of_day_def split: option.split)
  qed
  have b: "\<forall>d r. start_date \<le> d \<and> d \<le> end_date \<and> weekday d \<noteq> 6
            \<and> \<not> (\<exists>h \<in> set (db_holidays s). hol_is_active h \<and> hol_date h = d)
            \<and> r \<in> set (db_records s) \<and> rec_student_id r = sid \<and> rec_attendance_date r = d
          \<longrightarrow> (\<exists>r' \<in> set (db_records s). rec_student_id r' = sid \<and> rec_attendance_date r' = d
                \<and> filter (\<lambda>e. entry_date e = d) (st_records st) = [RealRecord r'])"
  proof (intro allI impI)
    fix d r
    assume d: "start_date \<le> d \<and> d \<le> end_date \<and> weekday d \<noteq> 6
            \<and> \<not> (\<exists>h \<in> set (db_holidays s). hol_is_active h \<and> hol_date h = d)
            \<and> r \<in> set (db_records s) \<and> rec_student_id r = sid \<and> rec_attendance_date r = d"
    then have w: "is_working_day H d" using wd[of d] by simp
    from d have "r \<in> set rs" unfolding rs_def set_student_records_in_range by simp
    with d have "m d \<noteq> None"
      using records_by_date_None[of rs d r] unfolding m_def by blast
    then obtain r' where r': "m d = Some r'" by blast
    with w d have "filter (\<lambda>e. entry_date e = d) (st_records st) = [RealRecord r']"
      unfolding recs day by (simp add: history_of_day_def)
    with inrs[OF r'] key[OF r']
    show "\<exists>r' \<in> set (db_records s). rec_student_id r' = sid \<and> rec_attendance_date r' = d
                \<and> filter (\<lambda>e. entry_date e = d) (st_records st) = [RealRecord r']"
      by blast
  qed
  have c: "\<forall>e \<in> set (st_records st). is_virtual e
          \<longrightarrow> start_date \<le> entry_date e \<and> entry_date e \<le> end_date
              \<and> entry_date e \<le> today \<and> weekday (entry_date e) \<noteq> 6
              \<and> \<not> (\<exists>h \<in> set (db_holidays s). hol_is_active h \<and> hol_date h = entry_date e)
              \<and> \<not> (\<exists>r \<in> set (db_records s). rec_student_id r = sid
                       \<and> rec_attendance_date r = entry_date e)"
  proof (intro ballI impI)
    fix e
    assume e: "e \<in> set (st_records st)" and v: "is_virtual e"
    from e obtain d where d: "start_date \<le> d" "d \<le> end_date"
      and ed: "e \<in> set (history_of_day H m today sid d)"
      unfolding recs hist_def by auto
    from ed v have f: "is_working_day H d" "m d = None" "d \<le> today" "e = VirtualAbsent sid d"
      by (auto simp: history_of_day_def split: if_splits option.splits)
    have "\<not> (\<exists>r \<in> set (db_records s). rec_student_id r = sid \<and> rec_attendance_date r = d)"
    proof
      assume "\<exists>r \<in> set (db_records s). rec_student_id r = sid \<and> rec_attendance_date r = d"
      then obtain r where "r \<in> set rs" "rec_attendance_date r = d"
        using d unfolding rs_def set_student_records_in_range by blast
      with records_by_date_None[of rs d r] f(2) show False unfolding m_def by blast
    qed
    with f d wd[OF d]
    show "start_date \<le> entry_date e \<and> entry_date e \<le> end_date
              \<and> entry_date e \<le> today \<and> weekday (entry_date e) \<noteq> 6
              \<and> \<not> (\<exists>h \<in> set (db_holidays s). hol_is_active h \<and> hol_date h = entry_date e)
              \<and> \<not> (\<exists>r \<in> set (db_records s). rec_student_id r = sid
                       \<and> rec_attendance_date r = entry_date e)"
      by simp
  qed
  show ?thesis by (rule exI[of _ st]) (intro conjI ret a b c)
qed

lemma example_week_history:
  "concat (map (history_of_day (get_holiday_dates_in_range db_example_week 739250 739256)
       (records_by_date (student_records_in_range db_example_week 7 739250 739256)) 739255 7)
     (rev [739250..739256])) =
   [VirtualAbsent 7 739255, RealRecord (present_record 4 7 739254),
    RealRecord (present_record 3 7 739253), RealRecord (present_record 2 7 739251),
    RealRecord (present_record 1 7 739250)]"
proof -
  have H: "get_holiday_dates_in_range db_example_week 739250 739256 = {739252}"
    by (simp add: get_holiday_dates_in_range_def get_holidays_in_range_def db_example_week_def
        db_one_holiday_def empty_db_def holiday_new_year_def)
  have rs: "student_records_in_range db_example_week 7 739250 739256 =
     [present_record 4 7 739254, present_record 3 7 739253, present_record 2 7 739251,
      present_record 1 7 739250]"
    by (simp add: student_records_in_range_def db_example_week_def db_one_holiday_def
        empty_db_def present_record_def)
  have up: "rev [739250..739256] =
     [739256, 739255, 739254, 739253, 739252, 739251, 739250::int]"
    by (simp add: upto_rec_numeral)
  have d: "rec_attendance_date (present_record i sid x) = x" for i sid x
    by (simp add: present_record_def)
  show ?thesis
    unfolding H rs up
    by (simp add: history_of_day_def is_working_day_def weekday_def records_by_date_def d)
qed


lemma stats_history:
  assumes "MINORD < start_date" "end_date < MAXORD"
    and ret: "get_student_attendance_stats s configured today sid (Some start_date) (Some end_date)
              = Inr st"
  shows "st_records st =
     concat (map (history_of_day (get_holiday_dates_in_range s start_date end_date)
                     (records_by_date (student_records_in_range s sid start_date end_date)) today sid)
                 (rev [start_date..end_date]))"
proof -
  from ret have "st = projr (get_student_attendance_stats s configured today sid
      (Some start_date) (Some end_date))" by simp
  then show ?thesis
    by (simp only: stats_returns[OF assms(1,2)] sum.sel attendance_stats.simps)
qed

theorem history_synthesis_correct_witness:
  "\<exists>st. get_student_attendance_stats db_example_week (739068, 739432) 739255 7
            (Some 739250) (Some 739256) = Inr st
     \<and> st_records st =
         [VirtualAbsent 7 739255, RealRecord (present_record 4 7 739254),
          RealRecord (present_record 3 7 739253), RealRecord (present_record 2 7 739251),
          RealRecord (present_record 1 7 739250)]
     \<and> length (filter (\<lambda>e. entry_date e = 739255) (st_records st)) = 1
     \<and> (\<exists>r' \<in> set (db_records db_example_week). rec_student_id r' = 7
           \<and> rec_attendance_date r' = 739250
           \<and> filter (\<lambda>e. entry_date e = 739250) (st_records st) = [RealRecord r'])
     \<and> \<not> (\<exists>r \<in> set (db_records db_example_week). rec_student_id r = 7
              \<and> rec_attendance_date r = 739255)"
proof -
  have b1: "MINORD < 739250" and b2: "739256 < MAXORD" by (simp_all add: MINORD_def MAXORD_def)
  have hs: "db_holidays db_example_week = [holiday_new_year]"
    and rs: "db_records db_example_week =
       [present_record 1 7 739250, present_record 2 7 739251,
        present_record 3 7 739253, present_record 4 7 739254]"
    by (simp_all add: db_example_week_def db_one_holiday_def empty_db_def)
  have hd: "hol_date holiday_new_year = 739252" by (simp add: holiday_new_year_def)
  have pr: "rec_attendance_date (present_record i sid x) = x"
    "rec_student_id (present_record i sid x) = sid" for i sid x
    by (simp_all add: present_record_def)
  from history_synthesis_correct[OF b1 b2, of db_example_week "(739068, 739432)" 739255 7]
  obtain st where ret: "get_student_attendance_stats db_example_week (739068, 739432) 739255 7
            (Some 739250) (Some 739256) = Inr st"
    and a: "\<forall>d. 739250 \<le> d \<and> d \<le> 739256 \<and> d \<le> 739255 \<and> weekday d \<noteq> 6
            \<and> \<not> (\<exists>h \<in> set (db_holidays db_example_week). hol_is_active h \<and> hol_date h = d)
          \<longrightarrow> length (filter (\<lambda>e. entry_date e = d) (st_records st)) = 1"
    and b: "\<forall>d r. 739250 \<le> d \<and> d \<le> 739256 \<and> weekday d \<noteq> 6
            \<and> \<not> (\<exists>h \<in> set (db_holidays db_example_week). hol_is_active h \<and> hol_date h = d)
            \<and> r \<in> set (db_records db_example_week) \<and> rec_student_id r = 7
            \<and> rec_attendance_date r = d
          \<longrightarrow> (\<exists>r' \<in> set (db_records db_example_week). rec_student_id r' = 7
                \<and> rec_attendance_date r' = d
                \<and> filter (\<lambda>e. entry_date e = d) (st_records st) = [RealRecord r'])"
    and c: "\<forall>e \<in> set (st_records st). is_virtual e
          \<longrightarrow> 739250 \<le> entry_date e \<and> entry_date e \<le> 739256
              \<and> entry_date e \<le> 739255 \<and> weekday (entry_date e) \<noteq> 6
              \<and> \<not> (\<exists>h \<in> set (db_holidays db_example_week). hol_is_active h
                       \<and> hol_date h = entry_date e)
              \<and> \<not> (\<exists>r \<in> set (db_records db_example_week). rec_student_id r = 7
                       \<and> rec_attendance_date r = entry_date e)"
    by (elim exE conjE)
  have recs: "st_records st =
         [VirtualAbsent 7 739255, RealRecord (present_record 4 7 739254),
          RealRecord (present_record 3 7 739253), RealRecord (present_record 2 7 739251),
          RealRecord (present_record 1 7 739250)]"
    unfolding stats_history[OF b1 b2 ret] by (rule example_week_history)
  have w1: "length (filter (\<lambda>e. entry_date e = 739255) (st_records st)) = 1"
    by (rule a[rule_format]) (simp add: hs hd weekday_def)
  have w2: "\<exists>r' \<in> set (db_records db_example_week). rec_student_id r' = 7
           \<and> rec_attendance_date r' = 739250
           \<and> filter (\<lambda>e. entry_date e = 739250) (st_records st) = [RealRecord r']"
    by (rule b[rule_format, of 739250 "present_record 1 7 739250"])
       (simp add: hs hd rs pr weekday_def)
  have "VirtualAbsent 7 739255 \<in> set (st_records st)" "is_virtual (VirtualAbsent 7 739255)"
    by (simp_all add: recs)
  from c[rule_format, OF this]
  have w3: "\<not> (\<exists>r \<in> set (db_records db_example_week). rec_student_id r = 7
              \<and> rec_attendance_date r = 739255)"
    by simp
  show ?thesis by (rule exI[of _ st]) (intro conjI ret recs w1 w2 w3)
qed

section \<open>Properties of the geofence operations\<close>

lemma scalar_one_or_none_cases:
  "scalar_one_or_none xs = Inr None \<longleftrightarrow> xs = []"
  "scalar_one_or_none xs = Inr (Some x) \<longleftrightarrow> xs = [x]"
  "scalar_one_or_none xs = Inl e \<longleftrightarrow> e = MultipleResultsFound \<and> 2 \<le> length xs"
  by (cases xs rule: scalar_one_or_none.cases; auto)+

lemma demote_primary_count:
  assumes "filter (\<lambda>g. gf_is_active g \<and> gf_is_primary g) (db_geofences s) = [ex]"
  shows "primary_active_count (geofence_store s (ex\<lparr>gf_is_primary := False\<rparr>)) = 0"
proof -
  have "\<not> (gf_is_active y \<and> gf_is_primary y)"
    if "y \<in> set (map (\<lambda>x. if gf_id x = gf_id ex then ex\<lparr>gf_is_primary := False\<rparr> else x)
                  (db_geofences s))" for y
  proof -
    from that obtain x where x: "x \<in> set (db_geofences s)"
      and y: "y = (if gf_id x = gf_id ex then ex\<lparr>gf_is_primary := False\<rparr> else x)"
      by auto
    show ?thesis
    proof (cases "gf_id x = gf_id ex")
      case True
      with y show ?thesis by simp
    next
      case False
      have "x \<notin> set (filter (\<lambda>g. gf_is_active g \<and> gf_is_primary g) (db_geofences s))"
        unfolding assms using False by auto
      with x False y show ?thesis by simp
    qed
  qed
  then show ?thesis
    by (simp add: primary_active_count_def geofence_store_def filter_empty_conv)
qed

text \<open>
  Creating a geofence keeps at most one geofence primary and active: the previous
  primary is unset before the new row is stored.
\<close>

lemma create_geofence_single_primary:
  assumes "create_geofence s data admin_id = Inr (g, s')"
    and "primary_active_count s \<le> 1"
  shows "primary_active_count s' \<le> 1"
proof (cases "gc_is_primary data")
  case False
  with assms show ?thesis
    by (auto simp: create_geofence_def Let_def primary_active_count_def)
next
  case True
  show ?thesis
  proof (cases "get_primary_active_geofence s")
    case (Inl e)
    with True assms(1) show ?thesis by (simp add: create_geofence_def)
  next
    case (Inr opt)
    show ?thesis
    proof (cases opt)
      case None
      with Inr have "primary_active_count s = 0"
        by (simp add: get_primary_active_geofence_def scalar_one_or_none_cases
            primary_active_count_def)
      with True Inr None assms(1) show ?thesis
        by (auto simp: create_geofence_def Let_def primary_active_count_def)
    next
      case (Some ex)
      with Inr have "filter (\<lambda>g. gf_is_active g \<and> gf_is_primary g) (db_geofences s) = [ex]"
        by (simp add: get_primary_active_geofence_def scalar_one_or_none_cases)
      from demote_primary_count[OF this] True Inr Some assms(1) show ?thesis
        by (auto simp: create_geofence_def Let_def primary_active_count_def)
    qed
  qed
qed

text \<open>
  C5: at most one geofence is primary and active, and every operation that sets
  \<open>is_primary\<close> unsets the previous primary.  \<open>update_geofence\<close> does not: with
  geofence 1 primary and active, the update \<open>{"is_primary": true}\<close> of geofence 2
  leaves both primary and active, after which \<open>get_primary_active_geofence\<close> raises
  \<open>MultipleResultsFound\<close>.
\<close>

theorem update_geofence_second_primary:
  "primary_active_count db_two_geofences = 1
   \<and> (\<exists>g s'. update_geofence db_two_geofences 2 make_primary = Inr (g, s')
        \<and> db_geofences s' = [campus_geofence 1 ''Main'' True, campus_geofence 2 ''Annex'' True]
        \<and> primary_active_count s' = 2
        \<and> get_primary_active_geofence s' = Inl MultipleResultsFound)"
proof -
  have g: "db_geofences db_two_geofences =
      [campus_geofence 1 ''Main'' True, campus_geofence 2 ''Annex'' False]"
    by (simp add: db_two_geofences_def empty_db_def)
  have one: "primary_active_count db_two_geofences = 1"
    by (simp add: primary_active_count_def g campus_geofence_def)
  have up: "apply_geofence_update (campus_geofence 2 ''Annex'' False) make_primary =
            campus_geofence 2 ''Annex'' True"
    by (simp add: apply_geofence_update_def make_primary_def campus_geofence_def)
  have get: "geofence_get_by_id db_two_geofences 2 = Inr (Some (campus_geofence 2 ''Annex'' False))"
    by (simp add: geofence_get_by_id_def g campus_geofence_def)
  define s' where "s' = geofence_store db_two_geofences (campus_geofence 2 ''Annex'' True)"
  have gs: "db_geofences s' = [campus_geofence 1 ''Main'' True, campus_geofence 2 ''Annex'' True]"
    by (simp add: s'_def geofence_store_def g campus_geofence_def)
  have nn: "\<not> null_in_required_column make_primary"
    by (simp add: null_in_required_column_def make_primary_def)
  have upd: "update_geofence db_two_geofences 2 make_primary =
             Inr (campus_geofence 2 ''Annex'' True, s')"
    by (simp add: update_geofence_def get up Let_def s'_def nn)
  have two: "primary_active_count s' = 2"
    by (simp add: primary_active_count_def gs campus_geofence_def)
  have multi: "get_primary_active_geofence s' = Inl MultipleResultsFound"
    by (simp add: get_primary_active_geofence_def gs campus_geofence_def)
  from upd gs two multi have "\<exists>g s'. update_geofence db_two_geofences 2 make_primary = Inr (g, s')
        \<and> db_geofences s' = [campus_geofence 1 ''Main'' True, campus_geofence 2 ''Annex'' True]
        \<and> primary_active_count s' = 2
        \<and> get_primary_active_geofence s' = Inl MultipleResultsFound"
    by (intro exI[of _ "campus_geofence 2 ''Annex'' True"] exI[of _ s'] conjI)
  with one show ?thesis by (rule conjI)
qed

section \<open>Properties of the profile photo review\<close>

lemma distinct_map_coarser:
  assumes "distinct (map f ys)" and "\<And>x y. x \<in> set ys \<Longrightarrow> y \<in> set ys \<Longrightarrow> g x = g y \<Longrightarrow> f x = f y"
  shows "distinct (map g ys)"
proof -
  from assms(1) have d: "distinct ys" and i: "inj_on f (set ys)" by (simp_all add: distinct_map)
  have "inj_on g (set ys)"
  proof (rule inj_onI)
    fix x y assume "x \<in> set ys" "y \<in> set ys" "g x = g y"
    with assms(2) have "f x = f y" by blast
    with i \<open>x \<in> set ys\<close> \<open>y \<in> set ys\<close> show "x = y" by (simp add: inj_on_def)
  qed
  with d show ?thesis by (simp add: distinct_map)
qed

lemma photo_unique_single_approved:
  assumes "photo_unique (db_photos s)"
  shows "single_approved s"
proof -
  from assms have "distinct (map (\<lambda>p. (ph_student_id p, ph_status p))
                     (filter (\<lambda>p. ph_status p = APPROVED) (db_photos s)))"
    unfolding photo_unique_def by (rule distinct_map_filter)
  then show ?thesis
    unfolding single_approved_def by (rule distinct_map_coarser) simp
qed

lemma photo_flush_Inr:
  "photo_flush s ps = Inr s' \<Longrightarrow> db_photos s' = ps \<and> photo_unique ps"
  by (auto simp: photo_flush_def split: if_splits)

lemma finish_review_Inr:
  assumes "finish_review s photo reviewer_id now = Inr (p, s')"
  shows "p = photo\<lparr>ph_reviewed_by := Some reviewer_id, ph_reviewed_at := Some now\<rparr>"
    and "db_photos s' = photo_store (db_photos s) p"
    and "photo_unique (db_photos s')"
  using assms
  by (auto simp: finish_review_def Let_def split: sum.splits dest: photo_flush_Inr)

lemma upload_Inr:
  assumes "upload_profile_photo s student file_path safe_filename face_count encoding = Inr (p, s')"
  shows "ph_status p = PHOTO_PENDING" and "db_photos s' = db_photos s @ [p]"
    and "photo_unique (db_photos s')"
  using assms
  by (auto simp: upload_profile_photo_def Let_def
      split: prod.splits if_splits option.splits sum.splits dest: photo_flush_Inr)

lemma review_Inr_unique:
  assumes "review_profile_photo s photo_id reviewer_id approval now = Inr (p, s')"
  shows "photo_unique (db_photos s')"
  using assms
  by (auto simp: review_profile_photo_def
      split: sum.splits option.splits if_splits dest: finish_review_Inr(3))


lemma in_photo_store:
  "x \<in> set ps \<Longrightarrow> ph_id x \<noteq> ph_id p \<Longrightarrow> x \<in> set (photo_store ps p)"
  "x \<in> set ps \<Longrightarrow> ph_id x = ph_id p \<Longrightarrow> p \<in> set (photo_store ps p)"
  by (force simp: photo_store_def)+

lemma review_approve_demotes:
  assumes ret: "review_profile_photo s photo_id reviewer_id approval now = Inr (p, s')"
    and ap: "pa_approved approval"
    and e: "e \<in> set (db_photos s)" "ph_student_id e = ph_student_id p" "ph_status e = APPROVED"
  shows "ph_status p = APPROVED \<and> ph_id p = photo_id
     \<and> e\<lparr>ph_status := REJECTED, ph_rejection_reason := Some ''Replaced by new approved photo''\<rparr>
         \<in> set (db_photos s')"
proof -
  define e' where
    "e' = e\<lparr>ph_status := REJECTED, ph_rejection_reason := Some ''Replaced by new approved photo''\<rparr>"
  from ret obtain photo where g: "photo_get_by_id s photo_id = Inr (Some photo)"
    by (auto simp: review_profile_photo_def split: sum.splits option.splits)
  then have flt: "filter (\<lambda>q. ph_id q = photo_id) (db_photos s) = [photo]"
    by (simp add: photo_get_by_id_def scalar_one_or_none_cases)
  then have "photo \<in> set (filter (\<lambda>q. ph_id q = photo_id) (db_photos s))" by simp
  then have pid: "ph_id photo = photo_id" by simp
  from ret g have pend: "ph_status photo = PHOTO_PENDING"
    by (auto simp: review_profile_photo_def split: if_splits)
  from ret g pend ap obtain existing s1 where
    ex: "get_approved_photo_for_student s (ph_student_id photo) = Inr existing"
    and s1: "(case existing of
                None \<Rightarrow> Inr s
              | Some existing_approved \<Rightarrow>
                  if ph_id existing_approved \<noteq> ph_id photo
                  then photo_flush s
                         (photo_store (db_photos s)
                            (existing_approved
                               \<lparr>ph_status := REJECTED,
                                ph_rejection_reason := Some ''Replaced by new approved photo''\<rparr>))
                  else Inr s) = Inr s1"
    and fin: "finish_review s1 (photo\<lparr>ph_status := APPROVED\<rparr>) reviewer_id now = Inr (p, s')"
    by (auto simp: review_profile_photo_def split: sum.splits)
  from finish_review_Inr[OF fin]
  have p: "p = photo\<lparr>ph_status := APPROVED, ph_reviewed_by := Some reviewer_id,
                      ph_reviewed_at := Some now\<rparr>"
    and ps': "db_photos s' = photo_store (db_photos s1) p"
    by simp_all
  from p pid have c1: "ph_status p = APPROVED" and c2: "ph_id p = photo_id"
    and st: "ph_student_id p = ph_student_id photo"
    by simp_all
  from e st have "e \<in> set (filter (\<lambda>q. ph_student_id q = ph_student_id photo
                       \<and> ph_status q = APPROVED) (db_photos s))"
    by simp
  with ex have existing: "existing = Some e"
    by (cases existing)
       (auto simp: get_approved_photo_for_student_def scalar_one_or_none_cases)
  show ?thesis
  proof (cases "ph_id e = ph_id photo")
    case False
    with s1 existing have "photo_flush s (photo_store (db_photos s) e') = Inr s1"
      by (simp add: e'_def)
    then have "db_photos s1 = photo_store (db_photos s) e'" by (simp add: photo_flush_Inr)
    moreover have "ph_id e = ph_id e'" by (simp add: e'_def)
    ultimately have "e' \<in> set (db_photos s1)" using e(1) by (simp add: in_photo_store(2))
    moreover have "ph_id e' \<noteq> ph_id p" using False c2 pid by (simp add: e'_def)
    ultimately have "e' \<in> set (db_photos s')" unfolding ps' by (rule in_photo_store(1))
    with c1 c2 show ?thesis unfolding e'_def by simp
  next
    case True
    txt \<open>Two rows with one primary key cannot both be matched by \<open>get_by_id\<close>.\<close>
    from True pid e(1) have "e \<in> set (filter (\<lambda>q. ph_id q = photo_id) (db_photos s))"
      by simp
    with flt have "e = photo" by simp
    with e(3) pend show ?thesis by simp
  qed
qed


text \<open>
  C4: no student ever has two \<open>APPROVED\<close> photos.  An upload that succeeds appends
  one photo with status \<open>PENDING\<close>, a review that succeeds leaves at most one
  \<open>APPROVED\<close> photo per student, and a successful approval has turned every other
  \<open>APPROVED\<close> photo of the same student into \<open>REJECTED\<close> with the reason
  "Replaced by new approved photo" before the reviewed photo became \<open>APPROVED\<close>.
\<close>

theorem single_approved_photo:
  "(upload_profile_photo s student file_path safe_filename face_count encoding = Inr (p, s')
      \<longrightarrow> ph_status p = PHOTO_PENDING \<and> db_photos s' = db_photos s @ [p] \<and> single_approved s')
   \<and> (review_profile_photo s photo_id reviewer_id approval now = Inr (p, s')
      \<longrightarrow> single_approved s')
   \<and> (review_profile_photo s photo_id reviewer_id approval now = Inr (p, s')
        \<and> pa_approved approval
        \<and> e \<in> set (db_photos s) \<and> ph_student_id e = ph_student_id p \<and> ph_status e = APPROVED
      \<longrightarrow> ph_status p = APPROVED \<and> ph_id p = photo_id
          \<and> e\<lparr>ph_status := REJECTED,
                ph_rejection_reason := Some ''Replaced by new approved photo''\<rparr>
              \<in> set (db_photos s'))"
proof (intro conjI impI)
  assume u: "upload_profile_photo s student file_path safe_filename face_count encoding = Inr (p, s')"
  from upload_Inr[OF u] show "ph_status p = PHOTO_PENDING" "db_photos s' = db_photos s @ [p]"
    by simp_all
  from upload_Inr(3)[OF u] show "single_approved s'" by (rule photo_unique_single_approved)
next
  assume r: "review_profile_photo s photo_id reviewer_id approval now = Inr (p, s')"
  from review_Inr_unique[OF r] show "single_approved s'" by (rule photo_unique_single_approved)
next
  assume a: "review_profile_photo s photo_id reviewer_id approval now = Inr (p, s')
        \<and> pa_approved approval
        \<and> e \<in> set (db_photos s) \<and> ph_student_id e = ph_student_id p \<and> ph_status e = APPROVED"
  then have d: "ph_status p = APPROVED \<and> ph_id p = photo_id
     \<and> e\<lparr>ph_status := REJECTED, ph_rejection_reason := Some ''Replaced by new approved photo''\<rparr>
         \<in> set (db_photos s')"
    by (intro review_approve_demotes[of s photo_id reviewer_id approval now p s' e]) simp_all
  from d show "ph_status p = APPROVED" by simp
  from d show "ph_id p = photo_id" by simp
  from d show "e\<lparr>ph_status := REJECTED,
                ph_rejection_reason := Some ''Replaced by new approved photo''\<rparr>
              \<in> set (db_photos s')" by simp
qed

lemma review_two_photos:
  "review_profile_photo db_two_photos 2 1 approve (739252, mk_time 10 0) =
     Inr (student_photo 2 7 APPROVED
            \<lparr>ph_reviewed_by := Some 1, ph_reviewed_at := Some (739252, mk_time 10 0)\<rparr>,
          db_two_photos\<lparr>db_photos :=
            [student_photo 1 7 REJECTED
               \<lparr>ph_rejection_reason := Some ''Replaced by new approved photo''\<rparr>,
             student_photo 2 7 APPROVED
               \<lparr>ph_reviewed_by := Some 1, ph_reviewed_at := Some (739252, mk_time 10 0)\<rparr>]\<rparr>)"
  by (simp add: review_profile_photo_def photo_get_by_id_def db_two_photos_def empty_db_def
      student_photo_def approve_def get_approved_photo_for_student_def photo_flush_def
      photo_store_def photo_unique_def finish_review_def Let_def)

lemma upload_first_photo:
  "upload_profile_photo empty_db student_7 ''uploads/profile_photos/p.jpg'' ''p.jpg'' 1
      (Some ''[0.1]'') =
     Inr (student_photo 1 7 PHOTO_PENDING,
          empty_db\<lparr>db_photos := [student_photo 1 7 PHOTO_PENDING]\<rparr>)"
  by (simp add: upload_profile_photo_def validate_face_image_def empty_db_def student_7_def
      fresh_id_def photo_flush_def photo_unique_def student_photo_def Let_def)

theorem single_approved_photo_witness:
  "review_profile_photo db_two_photos 2 1 approve (739252, mk_time 10 0) =
     Inr (student_photo 2 7 APPROVED
            \<lparr>ph_reviewed_by := Some 1, ph_reviewed_at := Some (739252, mk_time 10 0)\<rparr>,
          db_two_photos\<lparr>db_photos :=
            [student_photo 1 7 REJECTED
               \<lparr>ph_rejection_reason := Some ''Replaced by new approved photo''\<rparr>,
             student_photo 2 7 APPROVED
               \<lparr>ph_reviewed_by := Some 1, ph_reviewed_at := Some (739252, mk_time 10 0)\<rparr>]\<rparr>)
   \<and> upload_profile_photo empty_db student_7 ''uploads/profile_photos/p.jpg'' ''p.jpg'' 1
      (Some ''[0.1]'') =
     Inr (student_photo 1 7 PHOTO_PENDING,
          empty_db\<lparr>db_photos := [student_photo 1 7 PHOTO_PENDING]\<rparr>)
   \<and> single_approved
     (db_two_photos\<lparr>db_photos :=
        [student_photo 1 7 REJECTED
           \<lparr>ph_rejection_reason := Some ''Replaced by new approved photo''\<rparr>,
         student_photo 2 7 APPROVED
           \<lparr>ph_reviewed_by := Some 1, ph_reviewed_at := Some (739252, mk_time 10 0)\<rparr>]\<rparr>)
   \<and> student_photo 1 7 APPROVED
         \<lparr>ph_status := REJECTED, ph_rejection_reason := Some ''Replaced by new approved photo''\<rparr>
       \<in> set (db_photos
           (db_two_photos\<lparr>db_photos :=
              [student_photo 1 7 REJECTED
                 \<lparr>ph_rejection_reason := Some ''Replaced by new approved photo''\<rparr>,
               student_photo 2 7 APPROVED
                 \<lparr>ph_reviewed_by := Some 1, ph_reviewed_at := Some (739252, mk_time 10 0)\<rparr>]\<rparr>))
   \<and> ph_status (student_photo 1 7 PHOTO_PENDING) = PHOTO_PENDING
   \<and> single_approved (empty_db\<lparr>db_photos := [student_photo 1 7 PHOTO_PENDING]\<rparr>)"
proof -
  note t1 = single_approved_photo[of empty_db student_7 "''uploads/profile_photos/p.jpg''"
      "''p.jpg''" 1 "Some ''[0.1]''" "student_photo 1 7 PHOTO_PENDING"
      "empty_db\<lparr>db_photos := [student_photo 1 7 PHOTO_PENDING]\<rparr>", THEN conjunct1, rule_format,
      OF upload_first_photo]
  note t = single_approved_photo[of db_two_photos _ _ _ _ _
      "student_photo 2 7 APPROVED
            \<lparr>ph_reviewed_by := Some 1, ph_reviewed_at := Some (739252, mk_time 10 0)\<rparr>"
      "db_two_photos\<lparr>db_photos :=
            [student_photo 1 7 REJECTED
               \<lparr>ph_rejection_reason := Some ''Replaced by new approved photo''\<rparr>,
             student_photo 2 7 APPROVED
               \<lparr>ph_reviewed_by := Some 1, ph_reviewed_at := Some (739252, mk_time 10 0)\<rparr>]\<rparr>"
      2 1 approve "(739252, mk_time 10 0)" "student_photo 1 7 APPROVED"]
  have pre: "pa_approved approve" "student_photo 1 7 APPROVED \<in> set (db_photos db_two_photos)"
    "ph_student_id (student_photo 1 7 APPROVED) =
       ph_student_id (student_photo 2 7 APPROVED
            \<lparr>ph_reviewed_by := Some 1, ph_reviewed_at := Some (739252, mk_time 10 0)\<rparr>)"
    "ph_status (student_photo 1 7 APPROVED) = APPROVED"
    by (simp_all add: approve_def db_two_photos_def empty_db_def student_photo_def)
  from t[THEN conjunct2, THEN conjunct1, rule_format, OF review_two_photos]
  have w1: "single_approved
     (db_two_photos\<lparr>db_photos :=
        [student_photo 1 7 REJECTED
           \<lparr>ph_rejection_reason := Some ''Replaced by new approved photo''\<rparr>,
         student_photo 2 7 APPROVED
           \<lparr>ph_reviewed_by := Some 1, ph_reviewed_at := Some (739252, mk_time 10 0)\<rparr>]\<rparr>)" .
  from t[THEN conjunct2, THEN conjunct2, rule_format] review_two_photos pre
  have w2: "student_photo 1 7 APPROVED
         \<lparr>ph_status := REJECTED, ph_rejection_reason := Some ''Replaced by new approved photo''\<rparr>
       \<in> set (db_photos
           (db_two_photos\<lparr>db_photos :=
              [student_photo 1 7 REJECTED
                 \<lparr>ph_rejection_reason := Some ''Replaced by new approved photo''\<rparr>,
               student_photo 2 7 APPROVED
                 \<lparr>ph_reviewed_by := Some 1, ph_reviewed_at := Some (739252, mk_time 10 0)\<rparr>]\<rparr>))"
    by blast
  from t1 have w3: "ph_status (student_photo 1 7 PHOTO_PENDING) = PHOTO_PENDING"
    and w4: "single_approved (empty_db\<lparr>db_photos := [student_photo 1 7 PHOTO_PENDING]\<rparr>)"
    by simp_all
  show ?thesis by (intro conjI review_two_photos upload_first_photo w1 w2 w3 w4)
qed

section \<open>The gates of marking attendance\<close>


























end
